theory Spec2Isabelle
  imports Main "HOL-Library.Word"
begin

unbundle bit_operations_syntax

section \<open>Representation\<close>

text \<open>
  The admin server is TypeScript over a relational store reached through Prisma. The
  embedding keeps every table as the list of its rows, every handler as a function from
  the database to a result and the database afterwards, and every thrown error as a value.

  \<^item> Text that a request supplies, and the columns it is stored in, is a \<open>js_string\<close>: the
    list of the UTF-16 code units of the JavaScript string, so \<open>length\<close> is the
    \<open>.length\<close> that \<open>z.string().min\<close> and \<open>max\<close> compare and \<open>trim\<close> works on code units.
  \<^item> A \<open>string\<close> is either a sequence of bytes (the raw request body, a signature header
    and the secret as \<open>Buffer.from\<close> yields them, a stored webhook payload) or ASCII text
    that the program or its configuration fixes (error codes and messages, MIME types).
  \<^item> Generated primary keys (submission, user, admin, action and event ids) are opaque;
    they are natural numbers here, and a request names one by the key its uuid stands
    for. Task ids are chosen by the operator (\<open>daily-check-in\<close>) and stay text.
  \<^item> \<open>new Date()\<close> is a parameter \<open>now\<close> of the operation that reads the clock.
\<close>

type_synonym ident = nat
type_synonym timestamp = nat
type_synonym js_string = "16 word list"

text \<open>The JavaScript string of an ASCII literal.\<close>

definition js :: "string \<Rightarrow> js_string" where
  "js s = map of_char s"

section \<open>Errors (middleware/errorHandler.ts)\<close>

text \<open>
  Everything a handler can throw: the repository's own \<open>AppError\<close> (status code, code,
  message), a \<open>ZodError\<close> with its issues (path and message), the errors of the Prisma
  client, and the runtime's \<open>RangeError\<close> and \<open>TypeError\<close>.
\<close>

datatype Failure =
    AppError nat string string
  | ZodError "(string \<times> string) list"
  | PrismaClientKnownRequestError string
  | PrismaClientValidationError
  | PrismaClientUnknownRequestError string
  | RangeError string
  | TypeError string

definition notFound :: "string \<Rightarrow> Failure" where
  "notFound resource = AppError 404 ''NOT_FOUND'' (resource @ '' not found'')"

definition badRequest :: "string \<Rightarrow> Failure" where
  "badRequest message = AppError 400 ''BAD_REQUEST'' message"

definition unauthorized :: "string \<Rightarrow> Failure" where
  "unauthorized message = AppError 401 ''UNAUTHORIZED'' message"

definition forbidden :: "string \<Rightarrow> Failure" where
  "forbidden message = AppError 403 ''FORBIDDEN'' message"

definition conflict :: "string \<Rightarrow> Failure" where
  "conflict message = AppError 409 ''CONFLICT'' message"

text \<open>
  A zod schema collects one issue for every check that fails and throws them together;
  \<open>parse\<close> returns the value when there is none.
\<close>

definition issue :: "bool \<Rightarrow> string \<Rightarrow> string \<Rightarrow> (string \<times> string) list" where
  "issue failed path message = (if failed then [(path, message)] else [])"

definition zod_result :: "(string \<times> string) list \<Rightarrow> 'a \<Rightarrow> Failure + 'a" where
  "zod_result issues v = (if issues = [] then Inr v else Inl (ZodError issues))"

text \<open>
  A field of a parsed JSON body that a schema wants to be a string: missing, of another
  JSON type (with the name of that type), or a string. A field that a schema wants to be
  a uuid is, when it is a well-formed uuid, the key that the uuid stands for. A number
  field holds a whole number (the one number field is a size in bytes; a fractional
  number, which \<open>z.number()\<close> accepts, is not represented).
\<close>

datatype StringField = Missing | NotString string | Text js_string

datatype UuidField = UuidMissing | UuidNotString string | UuidInvalid | Uuid ident

datatype NumberField = NumberMissing | NotNumber string | Number int

definition string_issues ::
  "string \<Rightarrow> StringField \<Rightarrow> (js_string \<Rightarrow> (string \<times> string) list)
     \<Rightarrow> (string \<times> string) list" where
  "string_issues path field checks =
     (case field of
        Missing \<Rightarrow> [(path, ''Required'')]
      | NotString received \<Rightarrow> [(path, ''Expected string, received '' @ received)]
      | Text s \<Rightarrow> checks s)"

definition optional_string_issues :: "string \<Rightarrow> StringField \<Rightarrow> (string \<times> string) list" where
  "optional_string_issues path field =
     (case field of
        NotString received \<Rightarrow> [(path, ''Expected string, received '' @ received)]
      | _ \<Rightarrow> [])"

definition optional_text :: "StringField \<Rightarrow> js_string option" where
  "optional_text field = (case field of Text s \<Rightarrow> Some s | _ \<Rightarrow> None)"

definition number_issues ::
  "string \<Rightarrow> NumberField \<Rightarrow> (int \<Rightarrow> (string \<times> string) list)
     \<Rightarrow> (string \<times> string) list" where
  "number_issues path field checks =
     (case field of
        NumberMissing \<Rightarrow> [(path, ''Required'')]
      | NotNumber received \<Rightarrow> [(path, ''Expected number, received '' @ received)]
      | Number n \<Rightarrow> checks n)"

definition uuid_issues :: "string \<Rightarrow> UuidField \<Rightarrow> (string \<times> string) list" where
  "uuid_issues path field =
     (case field of
        UuidMissing \<Rightarrow> [(path, ''Required'')]
      | UuidNotString received \<Rightarrow> [(path, ''Expected string, received '' @ received)]
      | UuidInvalid \<Rightarrow> [(path, ''Invalid uuid'')]
      | Uuid i \<Rightarrow> [])"

text \<open>
  \<open>errorHandler\<close> turns a thrown value into the HTTP status and the error code of the
  response envelope.
\<close>

fun errorHandler :: "Failure \<Rightarrow> nat \<times> string" where
  "errorHandler (AppError statusCode code message) = (statusCode, code)"
| "errorHandler (ZodError issues) = (400, ''VALIDATION_ERROR'')"
| "errorHandler (PrismaClientKnownRequestError code) =
     (if code = ''P2002'' then (409, ''DUPLICATE_ENTRY'')
      else if code = ''P2025'' then (404, ''NOT_FOUND'')
      else (500, ''INTERNAL_ERROR''))"
| "errorHandler PrismaClientValidationError = (400, ''VALIDATION_ERROR'')"
| "errorHandler (PrismaClientUnknownRequestError message) = (500, ''INTERNAL_ERROR'')"
| "errorHandler (RangeError message) = (500, ''INTERNAL_ERROR'')"
| "errorHandler (TypeError message) = (500, ''INTERNAL_ERROR'')"

section \<open>Signatures (utils/index.ts)\<close>

text \<open>
  \<open>crypto.createHmac('sha256', secret).update(payload).digest()\<close> is the runtime's; it is a
  parameter \<open>hmac\<close> from the key and the message to the 256-bit digest. \<open>digest('hex')\<close>
  writes the digest as 64 lower-case hexadecimal digits, most significant first.
\<close>

type_synonym hmac_sha256 = "string \<Rightarrow> string \<Rightarrow> 256 word"

definition hex_digit :: "nat \<Rightarrow> char" where
  "hex_digit n = ''0123456789abcdef'' ! (n mod 16)"

definition digest_hex :: "256 word \<Rightarrow> string" where
  "digest_hex w = map (\<lambda>i. hex_digit (unat (drop_bit (4 * i) w AND 15))) (rev [0..<64])"

definition createHmacSignature :: "hmac_sha256 \<Rightarrow> string \<Rightarrow> string \<Rightarrow> string" where
  "createHmacSignature hmac payload secret = digest_hex (hmac secret payload)"

text \<open>
  \<open>crypto.timingSafeEqual\<close> throws a \<open>RangeError\<close> when its two buffers differ in byte
  length, and otherwise says whether they hold the same bytes.
\<close>

definition timingSafeEqual :: "string \<Rightarrow> string \<Rightarrow> Failure + bool" where
  "timingSafeEqual a b =
     (if length a \<noteq> length b
      then Inl (RangeError ''Input buffers must have the same byte length'')
      else Inr (a = b))"

definition verifyHmacSignature ::
  "hmac_sha256 \<Rightarrow> string \<Rightarrow> string \<Rightarrow> string \<Rightarrow> Failure + bool" where
  "verifyHmacSignature hmac payload signature secret =
     (let expected = createHmacSignature hmac payload secret
      in timingSafeEqual signature expected)"

definition example_hmac :: hmac_sha256 where
  "example_hmac key message = word_of_nat (length key + 7 * length message)"

section \<open>Tables\<close>

text \<open>
  Statuses and action types are the string unions of \<open>types/index.ts\<close>; \<open>status_text\<close>
  is the string a template literal prints for a status.
\<close>

datatype SubmissionStatus =
  PENDING | UNDER_REVIEW | APPROVED | REJECTED | REWARD_PENDING | REWARD_PAID | EXPIRED | FLAGGED

datatype ActionType =
  VIEW | APPROVE | REJECT | FLAG | UNFLAG | ESCALATE | REVERT | SUSPEND_USER | UNSUSPEND_USER

datatype WebhookEventType =
  submission_approved | submission_rejected | submission_flagged
  | user_suspended | reward_pending | reward_paid

datatype WebhookStatus = WH_PENDING | WH_DELIVERED | WH_RETRYING | WH_FAILED

fun status_text :: "SubmissionStatus \<Rightarrow> string" where
  "status_text PENDING = ''PENDING''"
| "status_text UNDER_REVIEW = ''UNDER_REVIEW''"
| "status_text APPROVED = ''APPROVED''"
| "status_text REJECTED = ''REJECTED''"
| "status_text REWARD_PENDING = ''REWARD_PENDING''"
| "status_text REWARD_PAID = ''REWARD_PAID''"
| "status_text EXPIRED = ''EXPIRED''"
| "status_text FLAGGED = ''FLAGGED''"

record TaskSubmission =
  sub_id :: ident
  userId :: ident
  taskId :: js_string
  status :: SubmissionStatus
  submittedAt :: timestamp
  reviewedAt :: "timestamp option"
  reviewedById :: "ident option"
  rejectionReason :: "js_string option"
  moderatorNote :: "js_string option"
  proofFileKey :: "js_string option"
  proofFileType :: "string option"
  proofUploadedAt :: "timestamp option"
  userNote :: "js_string option"
  rewardTxHash :: "js_string option"
  rewardPaidAt :: "timestamp option"
  submissionHash :: string

record PlatformUser =
  user_id :: ident
  walletAddress :: js_string
  totalApproved :: int
  totalRejected :: int
  totalPending :: int
  isSuspended :: bool

record Task =
  task_id :: js_string
  task_name :: string
  isActive :: bool
  rewardAmount :: string
  rewardToken :: string

record ModerationAction =
  action_id :: ident
  submissionId :: ident
  adminId :: ident
  action :: ActionType
  previousStatus :: SubmissionStatus
  newStatus :: SubmissionStatus
  reason :: "js_string option"
  internalNote :: "js_string option"
  createdAt :: timestamp

record WebhookEvent =
  event_id :: ident
  eventType :: WebhookEventType
  payload :: string
  targetUrl :: string
  wh_status :: WebhookStatus
  attempts :: nat
  lastAttemptAt :: "timestamp option"
  lastError :: "string option"
  deliveredAt :: "timestamp option"

record Database =
  taskSubmission :: "TaskSubmission list"
  platformUser :: "PlatformUser list"
  task :: "Task list"
  moderationAction :: "ModerationAction list"
  webhookEvent :: "WebhookEvent list"

record Config =
  webhookSecret :: string
  userAppWebhookUrl :: "string option"
  maxFileSizeMb :: int
  allowedMimeTypes :: "string list"

section \<open>Store operations (the Prisma client calls the handlers make)\<close>

text \<open>
  Modelled from the spec: the Prisma schema is not among the sources, and the spec calls an
  id an opaque unique identifier. A generated key is one the table does not hold yet: one
  more than the largest key in the table.
\<close>

definition fresh_id :: "ident list \<Rightarrow> ident" where
  "fresh_id ids = Suc (foldr max ids 0)"

definition findUnique_submission :: "Database \<Rightarrow> ident \<Rightarrow> TaskSubmission option" where
  "findUnique_submission db i = find (\<lambda>s. sub_id s = i) (taskSubmission db)"

definition findUnique_user :: "Database \<Rightarrow> ident \<Rightarrow> PlatformUser option" where
  "findUnique_user db i = find (\<lambda>u. user_id u = i) (platformUser db)"

definition findUnique_user_by_wallet :: "Database \<Rightarrow> js_string \<Rightarrow> PlatformUser option" where
  "findUnique_user_by_wallet db w = find (\<lambda>u. walletAddress u = w) (platformUser db)"

definition findUnique_task :: "Database \<Rightarrow> js_string \<Rightarrow> Task option" where
  "findUnique_task db i = find (\<lambda>t. task_id t = i) (task db)"

definition findUnique_event :: "Database \<Rightarrow> ident \<Rightarrow> WebhookEvent option" where
  "findUnique_event db i = find (\<lambda>e. event_id e = i) (webhookEvent db)"

text \<open>
  \<open>update({ where: { id }, data })\<close> throws the known request error \<open>P2025\<close> when no row
  has the key, and rewrites the row otherwise.
\<close>

definition update_submission ::
  "ident \<Rightarrow> (TaskSubmission \<Rightarrow> TaskSubmission) \<Rightarrow> Database \<Rightarrow> Failure + Database" where
  "update_submission i f db =
     (if findUnique_submission db i = None then Inl (PrismaClientKnownRequestError ''P2025'')
      else Inr (db\<lparr>taskSubmission :=
                    map (\<lambda>s. if sub_id s = i then f s else s) (taskSubmission db)\<rparr>))"

definition update_user ::
  "ident \<Rightarrow> (PlatformUser \<Rightarrow> PlatformUser) \<Rightarrow> Database \<Rightarrow> Failure + Database" where
  "update_user i f db =
     (if findUnique_user db i = None then Inl (PrismaClientKnownRequestError ''P2025'')
      else Inr (db\<lparr>platformUser :=
                    map (\<lambda>u. if user_id u = i then f u else u) (platformUser db)\<rparr>))"

definition update_event ::
  "ident \<Rightarrow> (WebhookEvent \<Rightarrow> WebhookEvent) \<Rightarrow> Database \<Rightarrow> Failure + Database" where
  "update_event i f db =
     (if findUnique_event db i = None then Inl (PrismaClientKnownRequestError ''P2025'')
      else Inr (db\<lparr>webhookEvent :=
                    map (\<lambda>e. if event_id e = i then f e else e) (webhookEvent db)\<rparr>))"

text \<open>
  Modelled from the spec: the column defaults of the schema (a generated key,
  \<open>createdAt = now\<close>) are those of the spec's data model. \<open>moderationAction.create\<close>
  appends the row.
\<close>

definition create_action ::
  "timestamp \<Rightarrow> ident \<Rightarrow> ident \<Rightarrow> ActionType \<Rightarrow> SubmissionStatus \<Rightarrow> SubmissionStatus
     \<Rightarrow> js_string option \<Rightarrow> js_string option \<Rightarrow> Database \<Rightarrow> Database" where
  "create_action now sid aid act prev new rsn note db =
     db\<lparr>moderationAction := moderationAction db @
          [\<lparr>action_id = fresh_id (map action_id (moderationAction db)),
            submissionId = sid, adminId = aid, action = act,
            previousStatus = prev, newStatus = new,
            reason = rsn, internalNote = note, createdAt = now\<rparr>]\<rparr>"

text \<open>
  A field whose value is \<open>undefined\<close> in the \<open>data\<close> of an update is left as it is.
\<close>

definition set_optional ::
  "'a option \<Rightarrow> ('a option \<Rightarrow> 'r \<Rightarrow> 'r) \<Rightarrow> 'r \<Rightarrow> 'r" where
  "set_optional v setter row = (case v of None \<Rightarrow> row | Some x \<Rightarrow> setter (Some x) row)"

text \<open>
  \<open>$transaction\<close>: the steps run in order on the database; the first one that throws
  aborts the transaction, and the caller keeps the database it started from.
\<close>

fun transaction :: "(Database \<Rightarrow> Failure + Database) list \<Rightarrow> Database \<Rightarrow> Failure + Database" where
  "transaction [] db = Inr db"
| "transaction (step # steps) db =
     (case step db of Inl e \<Rightarrow> Inl e | Inr db' \<Rightarrow> transaction steps db')"

section \<open>Webhook events (services/webhook.ts, first half)\<close>

text \<open>
  The functions of the runtime and of libraries that the handlers call are parameters,
  gathered in one record: the HMAC, SHA-256 as hex, \<open>Date.toISOString\<close>,
  \<open>JSON.stringify\<close> of a webhook payload, the signed URLs and the proof keys of the
  storage service, and the token \<open>crypto.randomBytes\<close> yields.
\<close>

record WebhookData =
  wd_submissionId :: ident
  wd_userId :: ident
  wd_walletAddress :: js_string
  wd_taskId :: js_string
  wd_taskName :: "string option"
  wd_status :: SubmissionStatus
  wd_rewardAmount :: "string option"
  wd_rewardToken :: "string option"
  wd_txHash :: "js_string option"
  wd_reason :: "js_string option"

record WebhookPayload =
  wp_eventType :: WebhookEventType
  wp_timestamp :: string
  wp_data :: WebhookData

record Runtime =
  rt_hmac :: hmac_sha256
  rt_sha256 :: "js_string \<Rightarrow> string"
  rt_toISOString :: "timestamp \<Rightarrow> string"
  rt_stringify :: "WebhookPayload \<Rightarrow> string"
  rt_getSignedViewUrl :: "js_string \<Rightarrow> string"
  rt_getSignedUploadUrl :: "js_string \<Rightarrow> js_string \<Rightarrow> string"
  rt_generateProofKey :: "js_string \<Rightarrow> js_string \<Rightarrow> js_string"
  rt_randomToken :: string

text \<open>
  A string is truthy when it is present and not empty (\<open>config.userAppWebhookUrl\<close>).
\<close>

definition truthy :: "string option \<Rightarrow> bool" where
  "truthy v = (case v of None \<Rightarrow> False | Some s \<Rightarrow> s \<noteq> [])"

text \<open>
  Modelled from the spec: the column defaults of a webhook event are the schema's, which
  is not among the sources; by the spec \<open>attempts\<close> is a counter, so it starts at 0, and
  the three nullable columns start at null.

  \<open>emitWebhook\<close> stores the event with the serialized payload and status \<open>PENDING\<close>, and
  returns its id.
  When a target URL is configured it also starts \<open>deliverWebhook\<close> without waiting for
  it: the second component of the result is the id of the event whose delivery was started.
\<close>

definition emitWebhook ::
  "Config \<Rightarrow> Runtime \<Rightarrow> timestamp \<Rightarrow> WebhookEventType \<Rightarrow> WebhookData \<Rightarrow> Database
     \<Rightarrow> (ident \<times> ident option) \<times> Database" where
  "emitWebhook cfg rt now evType dat db =
     (let pl = \<lparr>wp_eventType = evType, wp_timestamp = rt_toISOString rt now, wp_data = dat\<rparr>;
          event = \<lparr>event_id = fresh_id (map event_id (webhookEvent db)),
                   eventType = evType,
                   payload = rt_stringify rt pl,
                   targetUrl = (case userAppWebhookUrl cfg of None \<Rightarrow> [] | Some url \<Rightarrow> url),
                   wh_status = WH_PENDING,
                   attempts = 0,
                   lastAttemptAt = None,
                   lastError = None,
                   deliveredAt = None\<rparr>;
          db' = db\<lparr>webhookEvent := webhookEvent db @ [event]\<rparr>
      in ((event_id event,
           if truthy (userAppWebhookUrl cfg) then Some (event_id event) else None), db'))"

section \<open>Moderation service (services/moderation.ts)\<close>

text \<open>
  Modelled from the spec: the relations of a submission to its user and task are the
  schema's, which is not among the sources; by the spec a submission has a \<open>userId\<close> and
  a \<open>taskId\<close>, and the handlers read \<open>submission.user\<close> and \<open>submission.task\<close> without
  a null check, so both are required. A query that includes a required relation
  (\<open>include: { user: true, task: true }\<close>) returns the related rows with the submission.
  It fails inside the client when a related row is missing; with foreign keys in force
  that cannot happen.
\<close>

definition inconsistent_query :: Failure where
  "inconsistent_query = PrismaClientUnknownRequestError ''Inconsistent query result''"

definition findUnique_submission_user_task ::
  "Database \<Rightarrow> ident \<Rightarrow> Failure + (TaskSubmission \<times> PlatformUser \<times> Task) option" where
  "findUnique_submission_user_task db i =
     (case findUnique_submission db i of
        None \<Rightarrow> Inr None
      | Some s \<Rightarrow>
          (case findUnique_user db (userId s) of
             None \<Rightarrow> Inl inconsistent_query
           | Some u \<Rightarrow>
               (case findUnique_task db (taskId s) of
                  None \<Rightarrow> Inl inconsistent_query
                | Some t \<Rightarrow> Inr (Some (s, u, t)))))"

definition findUnique_submission_user ::
  "Database \<Rightarrow> ident \<Rightarrow> Failure + (TaskSubmission \<times> PlatformUser) option" where
  "findUnique_submission_user db i =
     (case findUnique_submission db i of
        None \<Rightarrow> Inr None
      | Some s \<Rightarrow>
          (case findUnique_user db (userId s) of
             None \<Rightarrow> Inl inconsistent_query
           | Some u \<Rightarrow> Inr (Some (s, u))))"

record SubmissionDetail =
  d_submission :: TaskSubmission
  d_task :: Task
  d_user :: PlatformUser
  d_proofUrl :: "string option"
  d_moderationHistory :: "ModerationAction list"

text \<open>
  \<open>getSubmissionDetail\<close>: the detail is read first (the history is what the table held
  before this call, newest first), then the VIEW action is written, outside any
  transaction. The joined admin e-mail of a history row is not part of the model.
\<close>

definition getSubmissionDetail ::
  "Runtime \<Rightarrow> timestamp \<Rightarrow> ident \<Rightarrow> ident \<Rightarrow> Database
     \<Rightarrow> (Failure + SubmissionDetail) \<times> Database" where
  "getSubmissionDetail rt now submissionId' adminId' db =
     (case findUnique_submission_user_task db submissionId' of
        Inl e \<Rightarrow> (Inl e, db)
      | Inr None \<Rightarrow> (Inl (notFound ''Submission''), db)
      | Inr (Some (submission, user, tsk)) \<Rightarrow>
          (let db' = create_action now submissionId' adminId' VIEW
                       (status submission) (status submission) None None db;
               proofUrl = (case proofFileKey submission of
                             None \<Rightarrow> None
                           | Some k \<Rightarrow> if k = [] then None
                                       else Some (rt_getSignedViewUrl rt k))
           in (Inr \<lparr>d_submission = submission,
                     d_task = tsk,
                     d_user = user,
                     d_proofUrl = proofUrl,
                     d_moderationHistory =
                       rev (sort_key createdAt
                         (filter (\<lambda>a. submissionId a = submissionId') (moderationAction db)))\<rparr>,
               db')))"

definition approveSubmission ::
  "Config \<Rightarrow> Runtime \<Rightarrow> timestamp \<Rightarrow> ident \<Rightarrow> ident \<Rightarrow> js_string option \<Rightarrow> js_string option
     \<Rightarrow> Database \<Rightarrow> (Failure + unit) \<times> Database" where
  "approveSubmission cfg rt now submissionId' adminId' moderatorNote' txHash db =
     (case findUnique_submission_user_task db submissionId' of
        Inl e \<Rightarrow> (Inl e, db)
      | Inr None \<Rightarrow> (Inl (notFound ''Submission''), db)
      | Inr (Some (submission, user, tsk)) \<Rightarrow>
          if status submission \<notin> set [PENDING, UNDER_REVIEW, FLAGGED]
          then (Inl (badRequest (''Cannot approve submission with status: ''
                                  @ status_text (status submission))), db)
          else
            (let previousStatus' = status submission in
             case transaction
                    [update_submission submissionId'
                       (\<lambda>s. set_optional txHash (\<lambda>v r. r\<lparr>rewardTxHash := v\<rparr>)
                              (set_optional moderatorNote' (\<lambda>v r. r\<lparr>moderatorNote := v\<rparr>)
                                (s\<lparr>status := APPROVED,
                                   reviewedById := Some adminId',
                                   reviewedAt := Some now\<rparr>))),
                     (\<lambda>d. Inr (create_action now submissionId' adminId' APPROVE
                                  previousStatus' APPROVED None moderatorNote' d)),
                     update_user (userId submission)
                       (\<lambda>u. u\<lparr>totalApproved := totalApproved u + 1,
                               totalPending := totalPending u - 1\<rparr>)] db of
               Inl e \<Rightarrow> (Inl e, db)
             | Inr db' \<Rightarrow>
                 (Inr (),
                  snd (emitWebhook cfg rt now submission_approved
                    \<lparr>wd_submissionId = sub_id submission,
                     wd_userId = userId submission,
                     wd_walletAddress = walletAddress user,
                     wd_taskId = taskId submission,
                     wd_taskName = Some (task_name tsk),
                     wd_status = APPROVED,
                     wd_rewardAmount = Some (rewardAmount tsk),
                     wd_rewardToken = Some (rewardToken tsk),
                     wd_txHash = txHash,
                     wd_reason = None\<rparr> db'))))"

text \<open>
  \<open>String.prototype.trim\<close> removes white space and line terminators from both ends. These
  are the code units of ECMAScript's WhiteSpace (tab, vertical tab, form feed, U+FEFF and
  the space separators U+0020, U+00A0, U+1680, U+2000 to U+200A, U+202F, U+205F, U+3000)
  and LineTerminator (line feed, carriage return, U+2028, U+2029); all of them are single
  code units.
\<close>

definition is_space :: "16 word \<Rightarrow> bool" where
  "is_space c =
     (c \<in> set [0x0009, 0x000A, 0x000B, 0x000C, 0x000D, 0x0020, 0x00A0, 0x1680,
                0x2028, 0x2029, 0x202F, 0x205F, 0x3000, 0xFEFF]
      \<or> (0x2000 \<le> c \<and> c \<le> 0x200A))"

definition trim :: "js_string \<Rightarrow> js_string" where
  "trim s = rev (dropWhile is_space (rev (dropWhile is_space s)))"

definition rejectSubmission ::
  "Config \<Rightarrow> Runtime \<Rightarrow> timestamp \<Rightarrow> ident \<Rightarrow> ident \<Rightarrow> js_string \<Rightarrow> js_string option
     \<Rightarrow> Database \<Rightarrow> (Failure + unit) \<times> Database" where
  "rejectSubmission cfg rt now submissionId' adminId' reason' moderatorNote' db =
     (if reason' = [] \<or> length (trim reason') = 0
      then (Inl (badRequest ''Rejection reason is required''), db)
      else
        case findUnique_submission_user db submissionId' of
          Inl e \<Rightarrow> (Inl e, db)
        | Inr None \<Rightarrow> (Inl (notFound ''Submission''), db)
        | Inr (Some (submission, user)) \<Rightarrow>
            if status submission \<notin> set [PENDING, UNDER_REVIEW, FLAGGED]
            then (Inl (badRequest (''Cannot reject submission with status: ''
                                    @ status_text (status submission))), db)
            else
              (let previousStatus' = status submission in
               case transaction
                      [update_submission submissionId'
                         (\<lambda>s. set_optional moderatorNote' (\<lambda>v r. r\<lparr>moderatorNote := v\<rparr>)
                                (s\<lparr>status := REJECTED,
                                   reviewedById := Some adminId',
                                   reviewedAt := Some now,
                                   rejectionReason := Some reason'\<rparr>)),
                       (\<lambda>d. Inr (create_action now submissionId' adminId' REJECT
                                    previousStatus' REJECTED (Some reason') moderatorNote' d)),
                       update_user (userId submission)
                         (\<lambda>u. u\<lparr>totalRejected := totalRejected u + 1,
                                 totalPending := totalPending u - 1\<rparr>)] db of
                 Inl e \<Rightarrow> (Inl e, db)
               | Inr db' \<Rightarrow>
                   (Inr (),
                    snd (emitWebhook cfg rt now submission_rejected
                      \<lparr>wd_submissionId = sub_id submission,
                       wd_userId = userId submission,
                       wd_walletAddress = walletAddress user,
                       wd_taskId = taskId submission,
                       wd_taskName = None,
                       wd_status = REJECTED,
                       wd_rewardAmount = None,
                       wd_rewardToken = None,
                       wd_txHash = None,
                       wd_reason = Some reason'\<rparr> db'))))"

definition flagSubmission ::
  "timestamp \<Rightarrow> ident \<Rightarrow> ident \<Rightarrow> js_string \<Rightarrow> Database \<Rightarrow> (Failure + unit) \<times> Database" where
  "flagSubmission now submissionId' adminId' reason' db =
     (case findUnique_submission db submissionId' of
        None \<Rightarrow> (Inl (notFound ''Submission''), db)
      | Some submission \<Rightarrow>
          if status submission \<noteq> PENDING \<and> status submission \<noteq> UNDER_REVIEW
          then (Inl (badRequest ''Can only flag pending or under review submissions''), db)
          else
            (let previousStatus' = status submission in
             case transaction
                    [update_submission submissionId' (\<lambda>s. s\<lparr>status := FLAGGED\<rparr>),
                     (\<lambda>d. Inr (create_action now submissionId' adminId' FLAG
                                  previousStatus' FLAGGED (Some reason') None d))] db of
               Inl e \<Rightarrow> (Inl e, db)
             | Inr db' \<Rightarrow> (Inr (), db')))"

section \<open>Submission routes (routes/submissions.ts)\<close>

text \<open>
  The reject route runs behind \<open>authenticate\<close> and \<open>canModerate\<close>; its handler parses the
  body with \<open>rejectSchema\<close> (\<open>reason\<close> a string of at least ten code units,
  \<open>moderatorNote\<close> a string when present) and calls the service.
\<close>

datatype AdminRole = SUPER_ADMIN | ADMIN | MODERATOR | READ_ONLY

record RejectBody =
  rb_reason :: StringField
  rb_moderatorNote :: StringField

definition rejectSchema :: "RejectBody \<Rightarrow> Failure + (js_string \<times> js_string option)" where
  "rejectSchema body =
     (let issues =
            string_issues ''reason'' (rb_reason body)
              (\<lambda>r. issue (length r < 10) ''reason''
                     ''Rejection reason must be at least 10 characters'')
            @ optional_string_issues ''moderatorNote'' (rb_moderatorNote body)
      in case rb_reason body of
           Text r \<Rightarrow> zod_result issues (r, optional_text (rb_moderatorNote body))
         | _ \<Rightarrow> Inl (ZodError issues))"

definition canModerate ::
  "AdminRole \<Rightarrow> Database \<Rightarrow> (Failure + 'a) \<times> Database \<Rightarrow> (Failure + 'a) \<times> Database" where
  "canModerate role db next =
     (if role = READ_ONLY
      then (Inl (forbidden ''Read-only users cannot perform moderation actions''), db)
      else next)"

definition post_reject ::
  "Config \<Rightarrow> Runtime \<Rightarrow> timestamp \<Rightarrow> AdminRole \<Rightarrow> ident \<Rightarrow> ident \<Rightarrow> RejectBody
     \<Rightarrow> Database \<Rightarrow> (Failure + unit) \<times> Database" where
  "post_reject cfg rt now role adminId' submissionId' body db =
     canModerate role db
       (case rejectSchema body of
          Inl e \<Rightarrow> (Inl e, db)
        | Inr (reason', moderatorNote') \<Rightarrow>
            rejectSubmission cfg rt now submissionId' adminId' reason' moderatorNote' db)"

section \<open>Webhook delivery (services/webhook.ts, second half)\<close>

definition MAX_RETRIES :: nat where
  "MAX_RETRIES = 3"

definition RETRY_DELAYS :: "nat list" where
  "RETRY_DELAYS = [1000, 5000, 30000]"

text \<open>
  The outcome of \<open>fetch\<close> is either a response (status and body text) or a thrown
  error with its message; the network is a parameter from the request to the outcome.
\<close>

datatype FetchResult = HttpResponse nat string | FetchError string

record HttpRequest =
  rq_url :: string
  rq_signature :: string
  rq_event :: WebhookEventType
  rq_id :: ident
  rq_body :: string

definition response_ok :: "nat \<Rightarrow> bool" where
  "response_ok st = (200 \<le> st \<and> st \<le> 299)"

text \<open>A number in a template literal, and \<open>Array.prototype.join\<close>.\<close>

fun decimal :: "nat \<Rightarrow> string" where
  "decimal n =
     (if n < 10 then [''0123456789'' ! n]
      else decimal (n div 10) @ [''0123456789'' ! (n mod 10)])"

declare decimal.simps [simp del]

definition decimal_int :: "int \<Rightarrow> string" where
  "decimal_int i = (if i < 0 then ''-'' @ decimal (nat (- i)) else decimal (nat i))"

fun join :: "string list \<Rightarrow> string \<Rightarrow> string" where
  "join [] sep = []"
| "join [x] sep = x"
| "join (x # y # ys) sep = x @ sep @ join (y # ys) sep"

text \<open>
  What one call of \<open>deliverWebhook\<close> did: the database afterwards, the HTTP requests it
  issued, and the timer it set (delay in milliseconds and the event to deliver again).
\<close>

record Delivery =
  dl_db :: Database
  dl_requests :: "HttpRequest list"
  dl_timer :: "(nat \<times> ident) option"

text \<open>The row was read at the start of the call, so the update finds it.\<close>

definition write_event :: "ident \<Rightarrow> (WebhookEvent \<Rightarrow> WebhookEvent) \<Rightarrow> Database \<Rightarrow> Database" where
  "write_event i f db =
     db\<lparr>webhookEvent := map (\<lambda>e. if event_id e = i then f e else e) (webhookEvent db)\<rparr>"

text \<open>\<open>RETRY_DELAYS[n] || RETRY_DELAYS[2]\<close>\<close>

definition retry_delay :: "nat \<Rightarrow> nat" where
  "retry_delay n =
     (if n < length RETRY_DELAYS \<and> RETRY_DELAYS ! n \<noteq> 0 then RETRY_DELAYS ! n
      else RETRY_DELAYS ! 2)"

definition delivery_failed ::
  "timestamp \<Rightarrow> WebhookEvent \<Rightarrow> HttpRequest \<Rightarrow> string \<Rightarrow> Database \<Rightarrow> Delivery" where
  "delivery_failed now event request errorMessage db =
     \<lparr>dl_db = write_event (event_id event)
                (\<lambda>e. e\<lparr>wh_status := (if attempts event \<ge> MAX_RETRIES - 1
                                        then WH_FAILED else WH_RETRYING),
                        attempts := attempts e + 1,
                        lastAttemptAt := Some now,
                        lastError := Some errorMessage\<rparr>) db,
      dl_requests = [request],
      dl_timer = (if attempts event < MAX_RETRIES - 1
                  then Some (retry_delay (attempts event), event_id event)
                  else None)\<rparr>"

text \<open>The POST that carries an event: its stored payload, signed, with the three headers.\<close>

definition webhook_request :: "Config \<Rightarrow> Runtime \<Rightarrow> WebhookEvent \<Rightarrow> HttpRequest" where
  "webhook_request cfg rt event =
     (let payloadStr = payload event;
          signature = createHmacSignature (rt_hmac rt) payloadStr (webhookSecret cfg)
      in \<lparr>rq_url = targetUrl event, rq_signature = signature,
          rq_event = eventType event, rq_id = event_id event,
          rq_body = payloadStr\<rparr>)"

definition deliverWebhook ::
  "Config \<Rightarrow> Runtime \<Rightarrow> (HttpRequest \<Rightarrow> FetchResult) \<Rightarrow> timestamp \<Rightarrow> ident \<Rightarrow> Database
     \<Rightarrow> Delivery" where
  "deliverWebhook cfg rt fetch now eventId db =
     (case findUnique_event db eventId of
        None \<Rightarrow> \<lparr>dl_db = db, dl_requests = [], dl_timer = None\<rparr>
      | Some event \<Rightarrow>
          if wh_status event = WH_DELIVERED
          then \<lparr>dl_db = db, dl_requests = [], dl_timer = None\<rparr>
          else
            (let request = webhook_request cfg rt event
             in case fetch request of
                  HttpResponse st body \<Rightarrow>
                    if response_ok st
                    then \<lparr>dl_db = write_event eventId
                                     (\<lambda>e. e\<lparr>wh_status := WH_DELIVERED,
                                             deliveredAt := Some now,
                                             attempts := attempts e + 1,
                                             lastAttemptAt := Some now\<rparr>) db,
                          dl_requests = [request],
                          dl_timer = None\<rparr>
                    else delivery_failed now event request
                           (''HTTP '' @ decimal st @ '': '' @ body) db
                | FetchError message \<Rightarrow> delivery_failed now event request message db))"

text \<open>Whether the outcome of a request was a 2xx response.\<close>

definition delivered_ok :: "FetchResult \<Rightarrow> bool" where
  "delivered_ok r = (case r of HttpResponse st body \<Rightarrow> response_ok st | FetchError m \<Rightarrow> False)"

text \<open>
  \<open>retryFailedWebhooks\<close>: the rows the sweep selects, and the deliveries it then makes one
  after the other, each on the database the one before left.
\<close>

definition failedEvents :: "Database \<Rightarrow> WebhookEvent list" where
  "failedEvents db =
     take 100 (filter (\<lambda>e. wh_status e = WH_RETRYING \<and> attempts e < MAX_RETRIES)
                      (webhookEvent db))"

fun deliver_each ::
  "Config \<Rightarrow> Runtime \<Rightarrow> (HttpRequest \<Rightarrow> FetchResult) \<Rightarrow> timestamp \<Rightarrow> ident list \<Rightarrow> Database
     \<Rightarrow> Database \<times> HttpRequest list \<times> (nat \<times> ident) list" where
  "deliver_each cfg rt fetch now [] db = (db, [], [])"
| "deliver_each cfg rt fetch now (i # ids) db =
     (let d = deliverWebhook cfg rt fetch now i db;
          (db', requests, timers) = deliver_each cfg rt fetch now ids (dl_db d)
      in (db', dl_requests d @ requests,
          (case dl_timer d of None \<Rightarrow> [] | Some t \<Rightarrow> [t]) @ timers))"

definition retryFailedWebhooks ::
  "Config \<Rightarrow> Runtime \<Rightarrow> (HttpRequest \<Rightarrow> FetchResult) \<Rightarrow> timestamp \<Rightarrow> Database
     \<Rightarrow> nat \<times> Database \<times> HttpRequest list \<times> (nat \<times> ident) list" where
  "retryFailedWebhooks cfg rt fetch now db =
     (length (failedEvents db),
      deliver_each cfg rt fetch now (map event_id (failedEvents db)) db)"

section \<open>Signed requests from the user app\<close>

text \<open>
  A request from the user app carries the raw body bytes that the JSON body parser kept
  (\<open>req.rawBody\<close>), the re-serialized parsed body (\<open>JSON.stringify(req.body)\<close>) and the
  \<open>x-signature\<close> header. The rate limiter in front of the upload routes is not modelled.
\<close>

record SignedRequest =
  rawBody :: "string option"
  bodyJson :: string
  x_signature :: "string option"

definition signed_payload :: "SignedRequest \<Rightarrow> string" where
  "signed_payload req =
     (case rawBody req of
        None \<Rightarrow> bodyJson req
      | Some body \<Rightarrow> if body = [] then bodyJson req else body)"

definition verifyAppSignature :: "Config \<Rightarrow> Runtime \<Rightarrow> SignedRequest \<Rightarrow> Failure + bool" where
  "verifyAppSignature cfg rt req =
     (case x_signature req of
        None \<Rightarrow> Inr False
      | Some sg \<Rightarrow>
          if sg = [] then Inr False
          else verifyHmacSignature (rt_hmac rt) (signed_payload req) sg (webhookSecret cfg))"

text \<open>
  \<open>requireAppSignature\<close> answers 401 with code \<open>UNAUTHORIZED\<close> itself; that response is
  the one the error handler gives for the \<open>AppError\<close> used here.
\<close>

definition requireAppSignature ::
  "Config \<Rightarrow> Runtime \<Rightarrow> SignedRequest \<Rightarrow> Database \<Rightarrow> (Failure + 'a) \<times> Database
     \<Rightarrow> (Failure + 'a) \<times> Database" where
  "requireAppSignature cfg rt req db next =
     (case verifyAppSignature cfg rt req of
        Inl e \<Rightarrow> (Inl e, db)
      | Inr ok \<Rightarrow> if \<not> ok then (Inl (unauthorized ''Invalid signature''), db) else next)"

section \<open>User app integration routes\<close>

text \<open>
  The body of a request is the parsed JSON object, as the fields that the schema of the
  route reads; \<open>parse\<close> returns their values or throws the issues of all of them.
\<close>

record ClaimBody =
  cb_walletAddress :: StringField
  cb_submissionId :: UuidField

record ClaimData =
  cd_submissionId :: ident
  cd_walletAddress :: js_string
  cd_rewardAmount :: string
  cd_rewardToken :: string
  cd_taskId :: js_string
  cd_taskName :: string

definition claimRewardSchema :: "ClaimBody \<Rightarrow> Failure + (js_string \<times> ident)" where
  "claimRewardSchema body =
     (let issues =
            string_issues ''walletAddress'' (cb_walletAddress body)
              (\<lambda>w. issue (length w < 32) ''walletAddress''
                     ''String must contain at least 32 character(s)'')
            @ uuid_issues ''submissionId'' (cb_submissionId body)
      in case (cb_walletAddress body, cb_submissionId body) of
           (Text w, Uuid i) \<Rightarrow> zod_result issues (w, i)
         | _ \<Rightarrow> Inl (ZodError issues))"

text \<open>
  \<open>findFirst({ where: { id, user: { walletAddress } }, include: { task, user } })\<close>
\<close>

definition findFirst_submission_of_wallet ::
  "Database \<Rightarrow> ident \<Rightarrow> js_string
     \<Rightarrow> Failure + (TaskSubmission \<times> PlatformUser \<times> Task) option" where
  "findFirst_submission_of_wallet db i wallet =
     (case find (\<lambda>s. sub_id s = i
                     \<and> (case findUnique_user db (userId s) of
                           None \<Rightarrow> False | Some u \<Rightarrow> walletAddress u = wallet))
                (taskSubmission db) of
        None \<Rightarrow> Inr None
      | Some s \<Rightarrow>
          (case findUnique_user db (userId s) of
             None \<Rightarrow> Inl inconsistent_query
           | Some u \<Rightarrow>
               (case findUnique_task db (taskId s) of
                  None \<Rightarrow> Inl inconsistent_query
                | Some t \<Rightarrow> Inr (Some (s, u, t)))))"

definition reward_claim :: "ClaimBody \<Rightarrow> Database \<Rightarrow> (Failure + ClaimData) \<times> Database" where
  "reward_claim body db =
     (case claimRewardSchema body of
        Inl e \<Rightarrow> (Inl e, db)
      | Inr (walletAddress', submissionId') \<Rightarrow>
          (case findFirst_submission_of_wallet db submissionId' walletAddress' of
             Inl e \<Rightarrow> (Inl e, db)
           | Inr None \<Rightarrow> (Inl (notFound ''Submission''), db)
           | Inr (Some (submission, user, tsk)) \<Rightarrow>
               if status submission \<noteq> APPROVED
               then (Inl (badRequest (''Cannot claim reward for submission with status: ''
                                       @ status_text (status submission))), db)
               else
                 (case update_submission submissionId'
                         (\<lambda>s. s\<lparr>status := REWARD_PENDING\<rparr>) db of
                    Inl e \<Rightarrow> (Inl e, db)
                  | Inr db' \<Rightarrow>
                      (Inr \<lparr>cd_submissionId = sub_id submission,
                            cd_walletAddress = walletAddress user,
                            cd_rewardAmount = rewardAmount tsk,
                            cd_rewardToken = rewardToken tsk,
                            cd_taskId = taskId submission,
                            cd_taskName = task_name tsk\<rparr>, db'))))"

definition post_reward_claim ::
  "Config \<Rightarrow> Runtime \<Rightarrow> SignedRequest \<Rightarrow> ClaimBody \<Rightarrow> Database
     \<Rightarrow> (Failure + ClaimData) \<times> Database" where
  "post_reward_claim cfg rt req body db =
     requireAppSignature cfg rt req db (reward_claim body db)"

record ConfirmRewardBody =
  cr_submissionId :: UuidField
  cr_txHash :: StringField

definition confirmRewardSchema :: "ConfirmRewardBody \<Rightarrow> Failure + (ident \<times> js_string)" where
  "confirmRewardSchema body =
     (let issues =
            uuid_issues ''submissionId'' (cr_submissionId body)
            @ string_issues ''txHash'' (cr_txHash body)
                (\<lambda>h. issue (length h < 64) ''txHash''
                       ''String must contain at least 64 character(s)'')
      in case (cr_submissionId body, cr_txHash body) of
           (Uuid i, Text h) \<Rightarrow> zod_result issues (i, h)
         | _ \<Rightarrow> Inl (ZodError issues))"

definition reward_confirm ::
  "timestamp \<Rightarrow> ConfirmRewardBody \<Rightarrow> Database \<Rightarrow> (Failure + unit) \<times> Database" where
  "reward_confirm now body db =
     (case confirmRewardSchema body of
        Inl e \<Rightarrow> (Inl e, db)
      | Inr (submissionId', txHash) \<Rightarrow>
          (case findUnique_submission db submissionId' of
             None \<Rightarrow> (Inl (notFound ''Submission''), db)
           | Some submission \<Rightarrow>
               if status submission \<noteq> REWARD_PENDING
               then (Inl (badRequest ''Submission is not pending reward''), db)
               else
                 (case update_submission submissionId'
                         (\<lambda>s. s\<lparr>status := REWARD_PAID,
                                 rewardTxHash := Some txHash,
                                 rewardPaidAt := Some now\<rparr>) db of
                    Inl e \<Rightarrow> (Inl e, db)
                  | Inr db' \<Rightarrow> (Inr (), db'))))"

definition post_reward_confirm ::
  "Config \<Rightarrow> Runtime \<Rightarrow> timestamp \<Rightarrow> SignedRequest \<Rightarrow> ConfirmRewardBody \<Rightarrow> Database
     \<Rightarrow> (Failure + unit) \<times> Database" where
  "post_reward_confirm cfg rt now req body db =
     requireAppSignature cfg rt req db (reward_confirm now body db)"

section \<open>Upload routes\<close>

definition verifyUserAppSignature ::
  "Config \<Rightarrow> Runtime \<Rightarrow> string \<Rightarrow> string option \<Rightarrow> Failure + bool" where
  "verifyUserAppSignature cfg rt payloadStr signature =
     (case signature of
        None \<Rightarrow> Inr False
      | Some sg \<Rightarrow>
          if sg = [] then Inr False
          else verifyHmacSignature (rt_hmac rt) payloadStr sg (webhookSecret cfg))"

text \<open>
  The body of an upload request as it arrives (\<open>RequestUploadJson\<close>) and as
  \<open>requestUploadSchema.parse\<close> returns it (\<open>RequestUploadBody\<close>).
\<close>

record RequestUploadJson =
  rj_walletAddress :: StringField
  rj_taskId :: StringField
  rj_filename :: StringField
  rj_contentType :: StringField
  rj_fileSize :: NumberField

record RequestUploadBody =
  ru_walletAddress :: js_string
  ru_taskId :: js_string
  ru_filename :: js_string
  ru_contentType :: js_string
  ru_fileSize :: int

record UploadTicket =
  uploadUrl :: string
  uploadKey :: js_string
  uploadToken :: string
  expiresAt :: string

definition requestUploadSchema :: "RequestUploadJson \<Rightarrow> Failure + RequestUploadBody" where
  "requestUploadSchema body =
     (let issues =
            string_issues ''walletAddress'' (rj_walletAddress body)
              (\<lambda>w. issue (length w < 32) ''walletAddress''
                       ''String must contain at least 32 character(s)''
                   @ issue (64 < length w) ''walletAddress''
                       ''String must contain at most 64 character(s)'')
            @ string_issues ''taskId'' (rj_taskId body)
                (\<lambda>t. issue (length t < 1) ''taskId''
                         ''String must contain at least 1 character(s)''
                     @ issue (100 < length t) ''taskId''
                         ''String must contain at most 100 character(s)'')
            @ string_issues ''filename'' (rj_filename body)
                (\<lambda>f. issue (255 < length f) ''filename''
                         ''String must contain at most 255 character(s)'')
            @ string_issues ''contentType'' (rj_contentType body) (\<lambda>c. [])
            @ number_issues ''fileSize'' (rj_fileSize body)
                (\<lambda>n. issue (n \<le> 0) ''fileSize'' ''Number must be greater than 0'')
      in case rj_walletAddress body of
           Text w \<Rightarrow>
             (case rj_taskId body of
                Text t \<Rightarrow>
                  (case rj_filename body of
                     Text f \<Rightarrow>
                       (case rj_contentType body of
                          Text c \<Rightarrow>
                            (case rj_fileSize body of
                               Number n \<Rightarrow>
                                 zod_result issues
                                   \<lparr>ru_walletAddress = w, ru_taskId = t, ru_filename = f,
                                    ru_contentType = c, ru_fileSize = n\<rparr>
                             | _ \<Rightarrow> Inl (ZodError issues))
                        | _ \<Rightarrow> Inl (ZodError issues))
                   | _ \<Rightarrow> Inl (ZodError issues))
              | _ \<Rightarrow> Inl (ZodError issues))
         | _ \<Rightarrow> Inl (ZodError issues))"

text \<open>
  Modelled from the spec: the column defaults of a user are the schema's, which is not
  among the sources; the counters are incremental counts, so they start at 0, and a new
  account is not suspended. \<open>platformUser.create({ data: { walletAddress } })\<close> appends
  the row.
\<close>

definition create_user :: "js_string \<Rightarrow> Database \<Rightarrow> PlatformUser \<times> Database" where
  "create_user wallet db =
     (let u = \<lparr>user_id = fresh_id (map user_id (platformUser db)),
                walletAddress = wallet,
                totalApproved = 0, totalRejected = 0, totalPending = 0,
                isSuspended = False\<rparr>
      in (u, db\<lparr>platformUser := platformUser db @ [u]\<rparr>))"

definition findFirst_pending :: "Database \<Rightarrow> ident \<Rightarrow> js_string \<Rightarrow> TaskSubmission option" where
  "findFirst_pending db uid tid =
     find (\<lambda>s. userId s = uid \<and> taskId s = tid \<and> status s \<in> set [PENDING, UNDER_REVIEW])
          (taskSubmission db)"

definition post_upload_request ::
  "Config \<Rightarrow> Runtime \<Rightarrow> timestamp \<Rightarrow> SignedRequest \<Rightarrow> RequestUploadJson \<Rightarrow> Database
     \<Rightarrow> (Failure + UploadTicket) \<times> Database" where
  "post_upload_request cfg rt now req body db =
     (case verifyUserAppSignature cfg rt (signed_payload req) (x_signature req) of
        Inl e \<Rightarrow> (Inl e, db)
      | Inr ok \<Rightarrow>
          if \<not> ok then (Inl (unauthorized ''Invalid request signature''), db)
          else
            (case requestUploadSchema body of
               Inl e \<Rightarrow> (Inl e, db)
             | Inr dat \<Rightarrow>
                 if ru_contentType dat \<notin> set (map js (allowedMimeTypes cfg))
                 then (Inl (badRequest (''Invalid file type. Allowed: ''
                                         @ join (allowedMimeTypes cfg) '', '')), db)
                 else if ru_fileSize dat > maxFileSizeMb cfg * 1024 * 1024
                 then (Inl (badRequest (''File too large. Maximum: ''
                                         @ decimal_int (maxFileSizeMb cfg) @ ''MB'')), db)
                 else
                   (case findUnique_task db (ru_taskId dat) of
                      None \<Rightarrow> (Inl (notFound ''Task''), db)
                    | Some tsk \<Rightarrow>
                        if \<not> isActive tsk then (Inl (notFound ''Task''), db)
                        else
                          (let (user, db1) =
                                 (case findUnique_user_by_wallet db (ru_walletAddress dat) of
                                    None \<Rightarrow> create_user (ru_walletAddress dat) db
                                  | Some u \<Rightarrow> (u, db))
                           in if isSuspended user
                              then (Inl (forbidden ''Account is suspended''), db1)
                              else
                                (case findFirst_pending db1 (user_id user) (ru_taskId dat) of
                                   Some existingPending \<Rightarrow>
                                     (Inl (conflict
                                        ''You already have a pending submission for this task''),
                                      db1)
                                 | None \<Rightarrow>
                                     (let key = rt_generateProofKey rt (ru_walletAddress dat)
                                                  (ru_filename dat)
                                      in (Inr \<lparr>uploadUrl = rt_getSignedUploadUrl rt key
                                                             (ru_contentType dat),
                                               uploadKey = key,
                                               uploadToken = rt_randomToken rt,
                                               expiresAt = rt_toISOString rt
                                                             (now + 10 * 60 * 1000)\<rparr>,
                                          db1)))))))"

text \<open>
  The body of an upload confirmation as it arrives and as \<open>confirmUploadSchema.parse\<close>
  returns it.
\<close>

record ConfirmUploadJson =
  cj_walletAddress :: StringField
  cj_taskId :: StringField
  cj_uploadKey :: StringField
  cj_userNote :: StringField

record ConfirmUploadBody =
  cu_walletAddress :: js_string
  cu_taskId :: js_string
  cu_uploadKey :: js_string
  cu_userNote :: "js_string option"

record ConfirmUploadReply =
  cu_submissionId :: ident
  cu_status :: SubmissionStatus
  cu_submittedAt :: timestamp

definition confirmUploadSchema :: "ConfirmUploadJson \<Rightarrow> Failure + ConfirmUploadBody" where
  "confirmUploadSchema body =
     (let issues =
            string_issues ''walletAddress'' (cj_walletAddress body)
              (\<lambda>w. issue (length w < 32) ''walletAddress''
                       ''String must contain at least 32 character(s)''
                   @ issue (64 < length w) ''walletAddress''
                       ''String must contain at most 64 character(s)'')
            @ string_issues ''taskId'' (cj_taskId body)
                (\<lambda>t. issue (length t < 1) ''taskId''
                         ''String must contain at least 1 character(s)''
                     @ issue (100 < length t) ''taskId''
                         ''String must contain at most 100 character(s)'')
            @ string_issues ''uploadKey'' (cj_uploadKey body) (\<lambda>k. [])
            @ (case cj_userNote body of
                 Missing \<Rightarrow> []
               | NotString received \<Rightarrow>
                   [(''userNote'', ''Expected string, received '' @ received)]
               | Text n \<Rightarrow> issue (500 < length n) ''userNote''
                             ''String must contain at most 500 character(s)'')
      in case cj_walletAddress body of
           Text w \<Rightarrow>
             (case cj_taskId body of
                Text t \<Rightarrow>
                  (case cj_uploadKey body of
                     Text k \<Rightarrow>
                       zod_result issues
                         \<lparr>cu_walletAddress = w, cu_taskId = t, cu_uploadKey = k,
                          cu_userNote = optional_text (cj_userNote body)\<rparr>
                   | _ \<Rightarrow> Inl (ZodError issues))
              | _ \<Rightarrow> Inl (ZodError issues))
         | _ \<Rightarrow> Inl (ZodError issues))"

text \<open>\<open>`${walletAddress}:${taskId}:${timestamp.toISOString()}`\<close>, hashed.\<close>

definition createSubmissionHash ::
  "Runtime \<Rightarrow> js_string \<Rightarrow> js_string \<Rightarrow> timestamp \<Rightarrow> string" where
  "createSubmissionHash rt wallet tid ts =
     rt_sha256 rt (wallet @ js '':'' @ tid @ js '':'' @ js (rt_toISOString rt ts))"

text \<open>\<open>key.split('.').pop() || ''\<close>: what follows the last dot, or the whole key.\<close>

definition extension_of :: "js_string \<Rightarrow> js_string" where
  "extension_of key = rev (takeWhile (\<lambda>c. c \<noteq> 0x2E) (rev key))"

definition mimeTypes :: "(js_string \<times> string) list" where
  "mimeTypes =
     [(js ''jpg'', ''image/jpeg''), (js ''jpeg'', ''image/jpeg''), (js ''png'', ''image/png''),
      (js ''webp'', ''image/webp''), (js ''mp4'', ''video/mp4''),
      (js ''webm'', ''video/webm'')]"

text \<open>
  \<open>mimeTypes[extension] || 'application/octet-stream'\<close>. The table is an object literal:
  a name inherited from \<open>Object.prototype\<close> yields a function or an object, which the
  client refuses as the value of a string column.
\<close>

definition object_prototype_names :: "js_string list" where
  "object_prototype_names =
     map js
     [''constructor'', ''toString'', ''toLocaleString'', ''valueOf'', ''hasOwnProperty'',
      ''isPrototypeOf'', ''propertyIsEnumerable'', ''__proto__'', ''__defineGetter__'',
      ''__defineSetter__'', ''__lookupGetter__'', ''__lookupSetter__'']"

definition proof_file_type :: "js_string \<Rightarrow> Failure + string" where
  "proof_file_type extension =
     (case map_of mimeTypes extension of
        Some t \<Rightarrow> Inr t
      | None \<Rightarrow> if extension \<in> set object_prototype_names then Inl PrismaClientValidationError
                else Inr ''application/octet-stream'')"

text \<open>
  Modelled from the spec: the column defaults of a submission are the schema's, which is
  not among the sources; \<open>submittedAt\<close> is the time of creation and the nullable columns
  that the handler does not set are null.
\<close>

definition create_submission ::
  "timestamp \<Rightarrow> ident \<Rightarrow> js_string \<Rightarrow> js_string \<Rightarrow> string \<Rightarrow> js_string option \<Rightarrow> string
     \<Rightarrow> Database \<Rightarrow> TaskSubmission \<times> Database" where
  "create_submission now uid tid key fileType note hash db =
     (let sub = \<lparr>sub_id = fresh_id (map sub_id (taskSubmission db)),
                  userId = uid, taskId = tid, status = PENDING,
                  submittedAt = now, reviewedAt = None, reviewedById = None,
                  rejectionReason = None, moderatorNote = None,
                  proofFileKey = Some key, proofFileType = Some fileType,
                  proofUploadedAt = Some now, userNote = note,
                  rewardTxHash = None, rewardPaidAt = None,
                  submissionHash = hash\<rparr>
      in (sub, db\<lparr>taskSubmission := taskSubmission db @ [sub]\<rparr>))"

definition post_upload_confirm ::
  "Config \<Rightarrow> Runtime \<Rightarrow> timestamp \<Rightarrow> SignedRequest \<Rightarrow> ConfirmUploadJson \<Rightarrow> Database
     \<Rightarrow> (Failure + ConfirmUploadReply) \<times> Database" where
  "post_upload_confirm cfg rt now req body db =
     (case verifyUserAppSignature cfg rt (signed_payload req) (x_signature req) of
        Inl e \<Rightarrow> (Inl e, db)
      | Inr ok \<Rightarrow>
          if \<not> ok then (Inl (unauthorized ''Invalid request signature''), db)
          else
            (case confirmUploadSchema body of
               Inl e \<Rightarrow> (Inl e, db)
             | Inr dat \<Rightarrow>
                 (case findUnique_user_by_wallet db (cu_walletAddress dat) of
                    None \<Rightarrow> (Inl (notFound ''User''), db)
                  | Some user \<Rightarrow>
                      if isSuspended user then (Inl (forbidden ''Account is suspended''), db)
                      else
                        (case findUnique_task db (cu_taskId dat) of
                           None \<Rightarrow> (Inl (notFound ''Task''), db)
                         | Some tsk \<Rightarrow>
                             if \<not> isActive tsk then (Inl (notFound ''Task''), db)
                             else
                               (let hash = createSubmissionHash rt (cu_walletAddress dat)
                                             (cu_taskId dat) now
                                in case proof_file_type (extension_of (cu_uploadKey dat)) of
                                     Inl e \<Rightarrow> (Inl e, db)
                                   | Inr fileType \<Rightarrow>
                                       (let (sub, db1) =
                                              create_submission now (user_id user)
                                                (cu_taskId dat) (cu_uploadKey dat) fileType
                                                (cu_userNote dat) hash db
                                        in case update_user (user_id user)
                                                  (\<lambda>u. u\<lparr>totalPending := totalPending u + 1\<rparr>)
                                                  db1 of
                                             Inl e \<Rightarrow> (Inl e, db)
                                           | Inr db2 \<Rightarrow>
                                               (Inr \<lparr>cu_submissionId = sub_id sub,
                                                     cu_status = status sub,
                                                     cu_submittedAt = submittedAt sub\<rparr>,
                                                db2)))))))"

section \<open>Reading an error\<close>

text \<open>
  \<open>String.prototype.includes\<close>, and whether the message of an error names a status.
\<close>

fun str_includes :: "string \<Rightarrow> string \<Rightarrow> bool" where
  "str_includes [] needle = (needle = [])"
| "str_includes (c # cs) needle = (take (length needle) (c # cs) = needle \<or> str_includes cs needle)"

fun names_status :: "Failure \<Rightarrow> SubmissionStatus \<Rightarrow> bool" where
  "names_status (AppError statusCode code message) st = str_includes message (status_text st)"
| "names_status e st = False"

section \<open>A small database\<close>

text \<open>
  One user, one active task and one submission of that user for that task, in a chosen
  status; the concrete inputs of the examples below.
\<close>

definition example_cfg :: Config where
  "example_cfg =
     \<lparr>webhookSecret = ''0123456789abcdef'',
      userAppWebhookUrl = Some ''http://localhost:3000/api/webhooks/admin'',
      maxFileSizeMb = 10,
      allowedMimeTypes = [''image/jpeg'', ''image/png'', ''image/webp'']\<rparr>"

definition example_rt :: Runtime where
  "example_rt =
     \<lparr>rt_hmac = example_hmac,
      rt_sha256 = (\<lambda>s. ''sha-'' @ decimal (length s)),
      rt_toISOString = decimal,
      rt_stringify = (\<lambda>p. ''{}''),
      rt_getSignedViewUrl = (\<lambda>k. ''/files/'' @ decimal (length k)),
      rt_getSignedUploadUrl = (\<lambda>k t. ''/upload/direct?key='' @ decimal (length k)),
      rt_generateProofKey = (\<lambda>w f. js ''proofs/'' @ take 8 w @ js ''/'' @ f),
      rt_randomToken = ''token''\<rparr>"

definition example_wallet :: js_string where
  "example_wallet = replicate 32 0x41"

definition example_user :: "int \<Rightarrow> PlatformUser" where
  "example_user pending =
     \<lparr>user_id = 1, walletAddress = example_wallet,
      totalApproved = 0, totalRejected = 0, totalPending = pending, isSuspended = False\<rparr>"

definition example_task :: Task where
  "example_task =
     \<lparr>task_id = js ''daily-check-in'', task_name = ''Daily check-in'', isActive = True,
      rewardAmount = ''10'', rewardToken = ''SOBER''\<rparr>"

definition example_submission :: "SubmissionStatus \<Rightarrow> TaskSubmission" where
  "example_submission st =
     \<lparr>sub_id = 7, userId = 1, taskId = js ''daily-check-in'', status = st,
      submittedAt = 50, reviewedAt = None, reviewedById = None,
      rejectionReason = None, moderatorNote = None,
      proofFileKey = Some (js ''proofs/a.png''), proofFileType = Some ''image/png'',
      proofUploadedAt = Some 50, userNote = None,
      rewardTxHash = None, rewardPaidAt = None, submissionHash = ''h''\<rparr>"

definition example_db :: "SubmissionStatus \<Rightarrow> int \<Rightarrow> Database" where
  "example_db st pending =
     \<lparr>taskSubmission = [example_submission st],
      platformUser = [example_user pending],
      task = [example_task],
      moderationAction = [],
      webhookEvent = []\<rparr>"

text \<open>A request whose signature is the HMAC of its raw body under the configured secret.\<close>

definition example_signed :: "string \<Rightarrow> SignedRequest" where
  "example_signed body =
     \<lparr>rawBody = Some body, bodyJson = body,
      x_signature = Some (createHmacSignature example_hmac body (webhookSecret example_cfg))\<rparr>"

text \<open>A database that holds the task and nothing else, and two upload requests.\<close>

definition example_empty :: Database where
  "example_empty =
     \<lparr>taskSubmission = [], platformUser = [], task = [example_task],
      moderationAction = [], webhookEvent = []\<rparr>"

definition example_upload_request :: RequestUploadJson where
  "example_upload_request =
     \<lparr>rj_walletAddress = Text example_wallet, rj_taskId = Text (js ''daily-check-in''),
      rj_filename = Text (js ''a.png''), rj_contentType = Text (js ''image/png''),
      rj_fileSize = Number 1000\<rparr>"

definition example_upload_confirm :: ConfirmUploadJson where
  "example_upload_confirm =
     \<lparr>cj_walletAddress = Text example_wallet, cj_taskId = Text (js ''daily-check-in''),
      cj_uploadKey = Text (js ''proofs/b.png''), cj_userNote = Missing\<rparr>"

text \<open>An endpoint that always answers 503, and one that answers 200.\<close>

definition example_down :: "HttpRequest \<Rightarrow> FetchResult" where
  "example_down request = HttpResponse 503 ''unavailable''"

definition example_up :: "HttpRequest \<Rightarrow> FetchResult" where
  "example_up request = HttpResponse 200 ''ok''"

definition example_data :: WebhookData where
  "example_data =
     \<lparr>wd_submissionId = 7, wd_userId = 1, wd_walletAddress = example_wallet,
      wd_taskId = js ''daily-check-in'', wd_taskName = Some ''Daily check-in'',
      wd_status = APPROVED, wd_rewardAmount = Some ''10'', wd_rewardToken = Some ''SOBER'',
      wd_txHash = None, wd_reason = None\<rparr>"

definition example_outbox :: Database where
  "example_outbox =
     snd (emitWebhook example_cfg example_rt 10 submission_approved example_data example_empty)"

definition example_event :: WebhookEvent where
  "example_event =
     \<lparr>event_id = 1, eventType = submission_approved, payload = ''{}'',
      targetUrl = ''http://localhost:3000/api/webhooks/admin'',
      wh_status = WH_PENDING, attempts = 0,
      lastAttemptAt = None, lastError = None, deliveredAt = None\<rparr>"

text \<open>
  One event and an endpoint that is down. \<open>emitWebhook\<close> stores the event at time 10 and
  starts the first delivery. The scheduled job runs \<open>retryFailedWebhooks\<close> at time 500,
  while the timer that the first delivery set is pending; that timer fires at 1010 and
  starts the third delivery. The timer that the job's delivery set fires at 5500 and
  starts the fourth. Each call has ended when the next one begins.
\<close>

definition example_first :: Delivery where
  "example_first = deliverWebhook example_cfg example_rt example_down 10 1 example_outbox"

definition example_sweep :: "nat \<times> Database \<times> HttpRequest list \<times> (nat \<times> ident) list" where
  "example_sweep =
     retryFailedWebhooks example_cfg example_rt example_down 500 (dl_db example_first)"

definition example_third :: Delivery where
  "example_third =
     deliverWebhook example_cfg example_rt example_down 1010 1 (fst (snd example_sweep))"

definition example_fourth :: Delivery where
  "example_fourth =
     deliverWebhook example_cfg example_rt example_down 5500 1 (dl_db example_third)"

text \<open>Key, status and attempts of the stored webhook events.\<close>

definition event_states :: "Database \<Rightarrow> (ident \<times> WebhookStatus \<times> nat) list" where
  "event_states db = map (\<lambda>e. (event_id e, wh_status e, attempts e)) (webhookEvent db)"

section \<open>Counters and the operations that move them\<close>

text \<open>
  The number of a user's submissions whose status satisfies \<open>P\<close>, and the two readings of
  \<open>totalPending\<close>: the set the counter follows in the code (a flagged submission still
  awaits its review) and the set \<open>{PENDING, UNDER_REVIEW}\<close>.
\<close>

definition count_submissions :: "(SubmissionStatus \<Rightarrow> bool) \<Rightarrow> Database \<Rightarrow> ident \<Rightarrow> int" where
  "count_submissions P db uid =
     int (length (filter (\<lambda>s. userId s = uid \<and> P (status s)) (taskSubmission db)))"

definition awaiting_review :: "SubmissionStatus \<Rightarrow> bool" where
  "awaiting_review st = (st \<in> set [PENDING, UNDER_REVIEW, FLAGGED])"

definition pending_or_under_review :: "SubmissionStatus \<Rightarrow> bool" where
  "pending_or_under_review st = (st \<in> set [PENDING, UNDER_REVIEW])"

definition counters_consistent :: "Database \<Rightarrow> bool" where
  "counters_consistent db =
     list_all (\<lambda>u. totalPending u = count_submissions awaiting_review db (user_id u))
              (platformUser db)"

definition counters_as_specified :: "Database \<Rightarrow> bool" where
  "counters_as_specified db =
     list_all (\<lambda>u. totalPending u = count_submissions pending_or_under_review db (user_id u))
              (platformUser db)"

text \<open>
  What the schema guarantees of the two tables: submission keys are unique and every
  submission belongs to a stored user.
\<close>

definition store_ok :: "Database \<Rightarrow> bool" where
  "store_ok db =
     (distinct (map sub_id (taskSubmission db))
      \<and> list_all (\<lambda>s. userId s \<in> set (map user_id (platformUser db))) (taskSubmission db))"

text \<open>
  The operations that write submissions or users, each with its arguments, and a run of
  them: every operation starts from the database the one before left, whether it
  succeeded or was refused.
\<close>

datatype Operation =
    RequestUpload SignedRequest RequestUploadJson
  | ConfirmUpload SignedRequest ConfirmUploadJson
  | ViewDetail ident ident
  | Approve ident ident "js_string option" "js_string option"
  | Reject ident ident js_string "js_string option"
  | Flag ident ident js_string
  | ClaimReward SignedRequest ClaimBody
  | ConfirmReward SignedRequest ConfirmRewardBody

fun perform :: "Config \<Rightarrow> Runtime \<Rightarrow> timestamp \<Rightarrow> Operation \<Rightarrow> Database \<Rightarrow> Database" where
  "perform cfg rt now (RequestUpload req body) db =
     snd (post_upload_request cfg rt now req body db)"
| "perform cfg rt now (ConfirmUpload req body) db =
     snd (post_upload_confirm cfg rt now req body db)"
| "perform cfg rt now (ViewDetail sid aid) db =
     snd (getSubmissionDetail rt now sid aid db)"
| "perform cfg rt now (Approve sid aid moderatorNote' txHash) db =
     snd (approveSubmission cfg rt now sid aid moderatorNote' txHash db)"
| "perform cfg rt now (Reject sid aid reason' moderatorNote') db =
     snd (rejectSubmission cfg rt now sid aid reason' moderatorNote' db)"
| "perform cfg rt now (Flag sid aid reason') db =
     snd (flagSubmission now sid aid reason' db)"
| "perform cfg rt now (ClaimReward req body) db =
     snd (post_reward_claim cfg rt req body db)"
| "perform cfg rt now (ConfirmReward req body) db =
     snd (post_reward_confirm cfg rt now req body db)"

fun run :: "Config \<Rightarrow> Runtime \<Rightarrow> (timestamp \<times> Operation) list \<Rightarrow> Database \<Rightarrow> Database" where
  "run cfg rt [] db = db"
| "run cfg rt ((now, operation) # rest) db = run cfg rt rest (perform cfg rt now operation db)"

section \<open>Properties of the signature verifier\<close>

lemma length_digest_hex: "length (digest_hex w) = 64"
  by (simp add: digest_hex_def)

lemma length_createHmacSignature: "length (createHmacSignature hmac body key) = 64"
  by (simp add: createHmacSignature_def length_digest_hex)

lemma hex_digit_inj:
  assumes "a < 16" and "b < 16" and "hex_digit a = hex_digit b"
  shows "a = b"
proof -
  have d: "distinct ''0123456789abcdef''" by simp
  have "(''0123456789abcdef'' ! a = ''0123456789abcdef'' ! b) = (a = b)"
    using assms(1,2) by (intro nth_eq_iff_index_eq [OF d]) simp_all
  then show ?thesis using assms by (simp add: hex_digit_def)
qed

lemma nibble_less: "unat (x AND (15 :: 256 word)) < 16"
proof -
  have "x AND 15 \<le> (15 :: 256 word)" by (rule word_and_le1)
  then have "unat (x AND 15) \<le> unat (15 :: 256 word)" by (simp add: word_le_nat_alt)
  then show ?thesis by simp
qed

lemma digest_hex_nibbles:
  assumes "digest_hex w = digest_hex w'" and "i < 64"
  shows "drop_bit (4 * i) w AND 15 = drop_bit (4 * i) w' AND 15"
proof -
  have "\<forall>i \<in> set (rev [0..<64]).
          hex_digit (unat (drop_bit (4 * i) w AND 15))
            = hex_digit (unat (drop_bit (4 * i) w' AND 15))"
    using assms(1) unfolding digest_hex_def map_eq_conv by simp
  then have "hex_digit (unat (drop_bit (4 * i) w AND 15))
               = hex_digit (unat (drop_bit (4 * i) w' AND 15))"
    using assms(2) by simp
  then have "unat (drop_bit (4 * i) w AND 15) = unat (drop_bit (4 * i) w' AND 15)"
    by (rule hex_digit_inj [OF nibble_less nibble_less])
  then show ?thesis by (simp add: word_unat_eq_iff)
qed

text \<open>Two digests with the same 64 hexadecimal digits are the same digest.\<close>

lemma digest_hex_inj:
  assumes "digest_hex w = digest_hex w'"
  shows "w = w'"
proof (rule bit_word_eqI)
  fix n :: nat
  assume n: "n < LENGTH(256)"
  have mask: "(15 :: 256 word) = mask 4" by (simp add: mask_eq_exp_minus_1)
  have i: "n div 4 < 64" using n by simp
  have j: "n mod 4 < 4" by simp
  have n_eq: "4 * (n div 4) + n mod 4 = n" by simp
  have j': "n mod 4 < LENGTH(256)"
    using j by simp
  have low: "bit (mask 4 :: 256 word) (n mod 4)"
    unfolding bit_mask_iff possible_bit_word using j j' by blast
  have "bit (drop_bit (4 * (n div 4)) x AND (15 :: 256 word)) (n mod 4) = bit x n"
    for x :: "256 word"
    unfolding mask bit_and_iff bit_drop_bit_eq using low n_eq by (simp add: add.commute)
  then show "bit w n = bit w' n"
    using digest_hex_nibbles [OF assms i] by metis
qed

lemma createHmacSignature_differs:
  "hmac key body' \<noteq> hmac key body
   \<Longrightarrow> createHmacSignature hmac body' key \<noteq> createHmacSignature hmac body key"
  using digest_hex_inj by (auto simp: createHmacSignature_def)

text \<open>
  Claim C5. A signature made by \<open>createHmacSignature\<close> verifies against the payload and
  secret it was made from. A signature of the same byte length in which some byte was
  altered does not verify, and neither does an altered payload whose HMAC-SHA256 digest
  differs from that of the payload that was signed: in both cases the result is
  \<open>false\<close>.
\<close>

theorem verifyHmacSignature_sign_verify:
  "verifyHmacSignature hmac body (createHmacSignature hmac body key) key = Inr True
   \<and> (length sig' = length (createHmacSignature hmac body key)
        \<and> sig' \<noteq> createHmacSignature hmac body key
      \<longrightarrow> verifyHmacSignature hmac body sig' key = Inr False)
   \<and> (hmac key body' \<noteq> hmac key body
      \<longrightarrow> verifyHmacSignature hmac body' (createHmacSignature hmac body key) key
            = Inr False)"
  using createHmacSignature_differs [of hmac key body' body]
  by (auto simp: verifyHmacSignature_def timingSafeEqual_def length_createHmacSignature)

theorem verifyHmacSignature_sign_verify_witness:
  "verifyHmacSignature example_hmac ''ab''
       (createHmacSignature example_hmac ''ab'' ''secret'') ''secret'' = Inr True
   \<and> length (replicate 64 CHR ''0'') = length (createHmacSignature example_hmac ''ab'' ''secret'')
   \<and> replicate 64 CHR ''0'' \<noteq> createHmacSignature example_hmac ''ab'' ''secret''
   \<and> verifyHmacSignature example_hmac ''ab'' (replicate 64 CHR ''0'') ''secret'' = Inr False
   \<and> example_hmac ''secret'' ''abc'' \<noteq> example_hmac ''secret'' ''ab''
   \<and> verifyHmacSignature example_hmac ''abc''
        (createHmacSignature example_hmac ''ab'' ''secret'') ''secret'' = Inr False"
proof -
  have h1: "length (replicate 64 CHR ''0'') = length (createHmacSignature example_hmac ''ab'' ''secret'')"
    by (simp add: length_createHmacSignature)
  have h2: "replicate 64 CHR ''0'' \<noteq> createHmacSignature example_hmac ''ab'' ''secret''"
    by code_simp
  have h3: "example_hmac ''secret'' ''abc'' \<noteq> example_hmac ''secret'' ''ab''"
    by code_simp
  show ?thesis
    using h1 h2 h3
      verifyHmacSignature_sign_verify [where hmac = example_hmac and body = "''ab''"
        and key = "''secret''" and sig' = "replicate 64 CHR ''0''" and body' = "''abc''"]
    by blast
qed

text \<open>
  Claim C9. \<open>verifyHmacSignature\<close> returns a boolean exactly when the supplied signature
  has 64 bytes, the length of a hex-encoded HMAC-SHA256 digest; for any other length it
  throws the \<open>RangeError\<close> of \<open>crypto.timingSafeEqual\<close> instead of returning \<open>false\<close>.
\<close>

theorem verifyHmacSignature_length:
  "(length sig \<noteq> 64 \<longrightarrow>
      verifyHmacSignature hmac body sig key
        = Inl (RangeError ''Input buffers must have the same byte length''))
   \<and> (length sig = 64 \<longrightarrow>
      verifyHmacSignature hmac body sig key
        = Inr (sig = createHmacSignature hmac body key))"
  by (simp add: verifyHmacSignature_def timingSafeEqual_def length_createHmacSignature)

theorem verifyHmacSignature_length_witness:
  "length ''deadbeef'' \<noteq> 64
   \<and> verifyHmacSignature example_hmac ''ab'' ''deadbeef'' ''secret''
        = Inl (RangeError ''Input buffers must have the same byte length'')
   \<and> length (replicate 64 CHR ''0'') = 64
   \<and> verifyHmacSignature example_hmac ''ab'' (replicate 64 CHR ''0'') ''secret''
        = Inr (replicate 64 CHR ''0'' = createHmacSignature example_hmac ''ab'' ''secret'')"
proof -
  have h1: "length ''deadbeef'' \<noteq> 64" by simp
  have h2: "length (replicate 64 CHR ''0'') = 64" by simp
  show ?thesis
    using h1 h2
      verifyHmacSignature_length [where hmac = example_hmac and body = "''ab''"
        and key = "''secret''" and sig = "''deadbeef''"]
      verifyHmacSignature_length [where hmac = example_hmac and body = "''ab''"
        and key = "''secret''" and sig = "replicate 64 CHR ''0''"]
    by blast
qed

section \<open>Effects of the moderation operations\<close>

lemma str_includes_Nil: "str_includes s []"
  by (cases s) simp_all

lemma str_includes_self: "str_includes (x @ ys) x"
  by (cases x) (simp_all add: str_includes_Nil)

lemma str_includes_append: "str_includes (pre @ x) x"
proof (induction pre)
  case Nil
  show ?case using str_includes_self [of x "[]"] by simp
next
  case (Cons c pre)
  then show ?case by simp
qed

lemma trim_Nil_iff: "(reason' = [] \<or> length (trim reason') = 0) = (trim reason' = [])"
  by (auto simp: trim_def)

lemma user_task_found:
  assumes "findUnique_submission_user_task db sid = Inr (Some (s, u, t))"
  shows "findUnique_submission db sid = Some s"
    and "findUnique_submission_user db sid = Inr (Some (s, u))"
  using assms
  by (auto simp: findUnique_submission_user_task_def findUnique_submission_user_def
           split: option.splits)

lemma approveSubmission_invalid:
  assumes "findUnique_submission_user_task db sid = Inr (Some (s, u, t))"
      and "status s \<notin> {PENDING, UNDER_REVIEW, FLAGGED}"
  shows "approveSubmission cfg rt now sid aid note tx db =
           (Inl (badRequest (''Cannot approve submission with status: ''
                              @ status_text (status s))), db)"
  using assms by (simp add: approveSubmission_def)

lemma rejectSubmission_invalid:
  assumes "findUnique_submission_user db sid = Inr (Some (s, u))"
      and "status s \<notin> {PENDING, UNDER_REVIEW, FLAGGED}"
      and "trim rsn \<noteq> []"
  shows "rejectSubmission cfg rt now sid aid rsn note db =
           (Inl (badRequest (''Cannot reject submission with status: ''
                              @ status_text (status s))), db)"
  using assms by (simp add: rejectSubmission_def trim_Nil_iff del: length_0_conv)

lemma rejectSubmission_blank:
  assumes "trim rsn = []"
  shows "rejectSubmission cfg rt now sid aid rsn note db =
           (Inl (badRequest ''Rejection reason is required''), db)"
  using assms by (simp add: rejectSubmission_def trim_Nil_iff del: length_0_conv)

lemma flagSubmission_invalid:
  assumes "findUnique_submission db sid = Some s"
      and "status s \<notin> {PENDING, UNDER_REVIEW}"
  shows "flagSubmission now sid aid rsn db =
           (Inl (badRequest ''Can only flag pending or under review submissions''), db)"
  using assms by (simp add: flagSubmission_def)

lemma flagSubmission_effect:
  assumes "flagSubmission now sid aid rsn db = (Inr u, db')"
  shows "\<exists>s. findUnique_submission db sid = Some s
            \<and> (status s = PENDING \<or> status s = UNDER_REVIEW)
            \<and> db' = db\<lparr>taskSubmission :=
                         map (\<lambda>r. if sub_id r = sid then r\<lparr>status := FLAGGED\<rparr> else r)
                             (taskSubmission db),
                       moderationAction := moderationAction db @
                         [\<lparr>action_id = fresh_id (map action_id (moderationAction db)),
                           submissionId = sid, adminId = aid, action = FLAG,
                           previousStatus = status s, newStatus = FLAGGED,
                           reason = Some rsn, internalNote = None, createdAt = now\<rparr>]\<rparr>"
  using assms
  by (auto simp: flagSubmission_def update_submission_def create_action_def Let_def
           split: option.splits if_splits sum.splits)

lemma approveSubmission_effect:
  assumes "approveSubmission cfg rt now sid aid note tx db = (Inr u, db')"
  shows "\<exists>s usr t. findUnique_submission_user_task db sid = Inr (Some (s, usr, t))
            \<and> status s \<in> {PENDING, UNDER_REVIEW, FLAGGED}
            \<and> taskSubmission db' =
                 map (\<lambda>r. if sub_id r = sid
                           then set_optional tx (\<lambda>v r. r\<lparr>rewardTxHash := v\<rparr>)
                                  (set_optional note (\<lambda>v r. r\<lparr>moderatorNote := v\<rparr>)
                                    (r\<lparr>status := APPROVED, reviewedById := Some aid,
                                       reviewedAt := Some now\<rparr>))
                           else r) (taskSubmission db)
            \<and> moderationAction db' = moderationAction db @
                         [\<lparr>action_id = fresh_id (map action_id (moderationAction db)),
                           submissionId = sid, adminId = aid, action = APPROVE,
                           previousStatus = status s, newStatus = APPROVED,
                           reason = None, internalNote = note, createdAt = now\<rparr>]
            \<and> platformUser db' =
                 map (\<lambda>r. if user_id r = userId s
                           then r\<lparr>totalApproved := totalApproved r + 1,
                                  totalPending := totalPending r - 1\<rparr>
                           else r) (platformUser db)
            \<and> task db' = task db
            \<and> (\<exists>ev. webhookEvent db' = webhookEvent db @ [ev]
                      \<and> eventType ev = submission_approved \<and> wh_status ev = WH_PENDING
                      \<and> attempts ev = 0)"
  using assms
  by (auto simp: approveSubmission_def update_submission_def update_user_def
                 create_action_def Let_def emitWebhook_def
           split: option.splits if_splits sum.splits prod.splits)

lemma rejectSubmission_effect:
  assumes "rejectSubmission cfg rt now sid aid rsn note db = (Inr u, db')"
  shows "\<exists>s usr. findUnique_submission_user db sid = Inr (Some (s, usr))
            \<and> status s \<in> {PENDING, UNDER_REVIEW, FLAGGED}
            \<and> trim rsn \<noteq> []
            \<and> taskSubmission db' =
                 map (\<lambda>r. if sub_id r = sid
                           then set_optional note (\<lambda>v r. r\<lparr>moderatorNote := v\<rparr>)
                                  (r\<lparr>status := REJECTED, reviewedById := Some aid,
                                     reviewedAt := Some now, rejectionReason := Some rsn\<rparr>)
                           else r) (taskSubmission db)
            \<and> moderationAction db' = moderationAction db @
                         [\<lparr>action_id = fresh_id (map action_id (moderationAction db)),
                           submissionId = sid, adminId = aid, action = REJECT,
                           previousStatus = status s, newStatus = REJECTED,
                           reason = Some rsn, internalNote = note, createdAt = now\<rparr>]
            \<and> platformUser db' =
                 map (\<lambda>r. if user_id r = userId s
                           then r\<lparr>totalRejected := totalRejected r + 1,
                                  totalPending := totalPending r - 1\<rparr>
                           else r) (platformUser db)
            \<and> task db' = task db
            \<and> (\<exists>ev. webhookEvent db' = webhookEvent db @ [ev]
                      \<and> eventType ev = submission_rejected \<and> wh_status ev = WH_PENDING
                      \<and> attempts ev = 0)"
  using assms
  by (auto simp: rejectSubmission_def update_submission_def update_user_def
                 create_action_def Let_def emitWebhook_def trim_Nil_iff
           simp del: length_0_conv
           split: option.splits if_splits sum.splits prod.splits)

lemma getSubmissionDetail_effect:
  assumes "findUnique_submission_user_task db sid = Inr (Some (s, u, t))"
  shows "\<exists>detail. getSubmissionDetail rt now sid aid db =
           (Inr detail,
            db\<lparr>moderationAction := moderationAction db @
                  [\<lparr>action_id = fresh_id (map action_id (moderationAction db)),
                    submissionId = sid, adminId = aid, action = VIEW,
                    previousStatus = status s, newStatus = status s,
                    reason = None, internalNote = None, createdAt = now\<rparr>]\<rparr>)"
  using assms by (simp add: getSubmissionDetail_def create_action_def Let_def)

section \<open>Claims about the moderation operations\<close>

lemma find_map_update:
  assumes "\<And>r. key (f r) = key r"
  shows "find (\<lambda>r. key r = i) (map (\<lambda>r. if key r = i then f r else r) xs)
           = map_option f (find (\<lambda>r. key r = i) xs)"
  using assms by (induction xs) auto

text \<open>
  Claim C1, as the code has it. For a submission (stored with its user and task) whose
  status is APPROVED, REJECTED, REWARD_PENDING, REWARD_PAID or EXPIRED, approving fails with
  a 400 \<open>BAD_REQUEST\<close> error whose message names the current status, and so does rejecting
  with a reason that is not blank; rejecting with a blank reason (one that \<open>trim\<close> empties:
  nothing but white space and line terminators) fails with the 400 error
  "Rejection reason is required". Flagging fails from these statuses and from FLAGGED with
  the 400 error "Can only flag pending or under review submissions". In every case the
  database is unchanged.
\<close>

theorem invalid_transition_leaves_state:
  assumes "findUnique_submission_user_task db sid = Inr (Some (s, usr, t))"
      and "status s \<in> {APPROVED, REJECTED, REWARD_PENDING, REWARD_PAID, EXPIRED, FLAGGED}"
  shows "(status s \<noteq> FLAGGED \<longrightarrow>
            approveSubmission cfg rt now sid aid mnote tx db =
              (Inl (badRequest (''Cannot approve submission with status: ''
                                 @ status_text (status s))), db)
            \<and> names_status (badRequest (''Cannot approve submission with status: ''
                                          @ status_text (status s))) (status s)
            \<and> (trim rsn \<noteq> [] \<longrightarrow>
                  rejectSubmission cfg rt now sid aid rsn mnote db =
                    (Inl (badRequest (''Cannot reject submission with status: ''
                                       @ status_text (status s))), db)
                  \<and> names_status (badRequest (''Cannot reject submission with status: ''
                                                @ status_text (status s))) (status s))
            \<and> (trim rsn = [] \<longrightarrow>
                  rejectSubmission cfg rt now sid aid rsn mnote db =
                    (Inl (badRequest ''Rejection reason is required''), db)))
         \<and> flagSubmission now sid aid rsn db =
              (Inl (badRequest ''Can only flag pending or under review submissions''), db)
         \<and> (\<forall>message. errorHandler (badRequest message) = (400, ''BAD_REQUEST''))"
proof -
  note found = user_task_found [OF assms(1)]
  have not_flaggable: "status s \<notin> {PENDING, UNDER_REVIEW}"
    using assms(2) by auto
  have flag: "flagSubmission now sid aid rsn db =
                (Inl (badRequest ''Can only flag pending or under review submissions''), db)"
    by (rule flagSubmission_invalid [OF found(1) not_flaggable])
  have handler: "\<forall>message. errorHandler (badRequest message) = (400, ''BAD_REQUEST'')"
    by (simp add: badRequest_def)
  have named: "\<And>pre. names_status (badRequest (pre @ status_text (status s))) (status s)"
    by (simp add: badRequest_def str_includes_append)
  show ?thesis
  proof (cases "status s = FLAGGED")
    case True
    then show ?thesis using flag handler by simp
  next
    case False
    then have closed: "status s \<notin> {PENDING, UNDER_REVIEW, FLAGGED}"
      using assms(2) by auto
    have approve: "approveSubmission cfg rt now sid aid mnote tx db =
                     (Inl (badRequest (''Cannot approve submission with status: ''
                                        @ status_text (status s))), db)"
      by (rule approveSubmission_invalid [OF assms(1) closed])
    have reject: "trim rsn \<noteq> [] \<Longrightarrow>
                    rejectSubmission cfg rt now sid aid rsn mnote db =
                      (Inl (badRequest (''Cannot reject submission with status: ''
                                         @ status_text (status s))), db)"
      by (rule rejectSubmission_invalid [OF found(2) closed])
    have blank: "trim rsn = [] \<Longrightarrow>
                   rejectSubmission cfg rt now sid aid rsn mnote db =
                     (Inl (badRequest ''Rejection reason is required''), db)"
      by (rule rejectSubmission_blank)
    show ?thesis
      using approve reject blank flag handler named by blast
  qed
qed

theorem invalid_transition_leaves_state_witness:
  "approveSubmission example_cfg example_rt 100 7 9 None None (example_db APPROVED 0) =
     (Inl (badRequest ''Cannot approve submission with status: APPROVED''), example_db APPROVED 0)
   \<and> rejectSubmission example_cfg example_rt 100 7 9 (js ''duplicate proof'') None
        (example_db APPROVED 0) =
     (Inl (badRequest ''Cannot reject submission with status: APPROVED''), example_db APPROVED 0)
   \<and> flagSubmission 100 7 9 (js ''duplicate proof'') (example_db APPROVED 0) =
     (Inl (badRequest ''Can only flag pending or under review submissions''),
      example_db APPROVED 0)
   \<and> rejectSubmission example_cfg example_rt 100 7 9 (replicate 12 0xA0) None
        (example_db EXPIRED 0) =
     (Inl (badRequest ''Rejection reason is required''), example_db EXPIRED 0)
   \<and> flagSubmission 100 7 9 (js ''   '') (example_db FLAGGED 1) =
     (Inl (badRequest ''Can only flag pending or under review submissions''),
      example_db FLAGGED 1)"
proof -
  have found: "findUnique_submission_user_task (example_db st n) 7
                 = Inr (Some (example_submission st, example_user n, example_task))" for st n
    by (simp add: findUnique_submission_user_task_def findUnique_submission_def
          findUnique_user_def findUnique_task_def example_db_def example_submission_def
          example_user_def example_task_def)
  have st: "status (example_submission x) = x" for x
    by (simp add: example_submission_def)
  have t1: "trim (js ''duplicate proof'') \<noteq> []" by code_simp
  have t2: "trim (replicate 12 0xA0) = []" by code_simp
  have a: "status (example_submission APPROVED)
             \<in> {APPROVED, REJECTED, REWARD_PENDING, REWARD_PAID, EXPIRED, FLAGGED}"
    and e: "status (example_submission EXPIRED)
             \<in> {APPROVED, REJECTED, REWARD_PENDING, REWARD_PAID, EXPIRED, FLAGGED}"
    and f: "status (example_submission FLAGGED)
             \<in> {APPROVED, REJECTED, REWARD_PENDING, REWARD_PAID, EXPIRED, FLAGGED}"
    by (simp_all add: st)
  show ?thesis
    using t1 t2
      invalid_transition_leaves_state [OF found a, where cfg = example_cfg and rt = example_rt
        and now = 100 and aid = 9 and mnote = None and tx = None and rsn = "js ''duplicate proof''"]
      invalid_transition_leaves_state [OF found e, where cfg = example_cfg and rt = example_rt
        and now = 100 and aid = 9 and mnote = None and tx = None
        and rsn = "replicate 12 0xA0"]
      invalid_transition_leaves_state [OF found f, where cfg = example_cfg and rt = example_rt
        and now = 100 and aid = 9 and mnote = None and tx = None and rsn = "js ''   ''"]
    by (simp add: st)
qed

text \<open>
  Claim C1, as stated, fails on flagging: an APPROVED submission is refused with a fixed
  message that does not name the current status. It fails on rejecting too when the
  reason is blank (here a space, a no-break space and a line separator), for the reason is
  checked before the submission is read.
\<close>

theorem flag_error_omits_status:
  "status (example_submission APPROVED) = APPROVED
   \<and> findUnique_submission (example_db APPROVED 0) 7 = Some (example_submission APPROVED)
   \<and> flagSubmission 100 7 9 (js ''duplicate proof'') (example_db APPROVED 0) =
       (Inl (badRequest ''Can only flag pending or under review submissions''),
        example_db APPROVED 0)
   \<and> \<not> names_status (badRequest ''Can only flag pending or under review submissions'') APPROVED
   \<and> rejectSubmission example_cfg example_rt 100 7 9 [0x20, 0xA0, 0x2028] None
       (example_db APPROVED 0) =
       (Inl (badRequest ''Rejection reason is required''), example_db APPROVED 0)
   \<and> \<not> names_status (badRequest ''Rejection reason is required'') APPROVED"
proof -
  have found: "findUnique_submission (example_db APPROVED 0) 7 = Some (example_submission APPROVED)"
    by (simp add: findUnique_submission_def example_db_def example_submission_def)
  have st: "status (example_submission APPROVED) = APPROVED"
    by (simp add: example_submission_def)
  have flag: "flagSubmission 100 7 9 (js ''duplicate proof'') (example_db APPROVED 0) =
       (Inl (badRequest ''Can only flag pending or under review submissions''),
        example_db APPROVED 0)"
    by (simp add: flagSubmission_def found st)
  have t: "trim [0x20, 0xA0, 0x2028] = []" by code_simp
  have reject: "rejectSubmission example_cfg example_rt 100 7 9 [0x20, 0xA0, 0x2028] None
                  (example_db APPROVED 0) =
       (Inl (badRequest ''Rejection reason is required''), example_db APPROVED 0)"
    by (simp add: rejectSubmission_def t)
  have n1: "\<not> names_status (badRequest ''Can only flag pending or under review submissions'')
               APPROVED"
    by code_simp
  have n2: "\<not> names_status (badRequest ''Rejection reason is required'') APPROVED"
    by code_simp
  show ?thesis using found st flag reject n1 n2 by simp
qed

text \<open>
  Claim C6. A successful approve, reject or flag appends exactly one moderation action,
  whose previous status is the status the submission had before the call and whose new
  status is APPROVED, REJECTED or FLAGGED. Reading the detail of a stored submission
  appends exactly one VIEW action whose previous and new status are both the current
  status, and leaves the submissions and the users' counters as they were.
\<close>

theorem moderation_writes_one_action:
  "(approveSubmission cfg rt now sid aid mnote tx db = (Inr u1, db1) \<longrightarrow>
      (\<exists>s a. findUnique_submission db sid = Some s
             \<and> moderationAction db1 = moderationAction db @ [a]
             \<and> action a = APPROVE \<and> submissionId a = sid \<and> adminId a = aid
             \<and> previousStatus a = status s \<and> newStatus a = APPROVED))
   \<and> (rejectSubmission cfg rt now sid aid rsn mnote db = (Inr u2, db2) \<longrightarrow>
      (\<exists>s a. findUnique_submission db sid = Some s
             \<and> moderationAction db2 = moderationAction db @ [a]
             \<and> action a = REJECT \<and> submissionId a = sid \<and> adminId a = aid
             \<and> previousStatus a = status s \<and> newStatus a = REJECTED))
   \<and> (flagSubmission now sid aid rsn db = (Inr u3, db3) \<longrightarrow>
      (\<exists>s a. findUnique_submission db sid = Some s
             \<and> moderationAction db3 = moderationAction db @ [a]
             \<and> action a = FLAG \<and> submissionId a = sid \<and> adminId a = aid
             \<and> previousStatus a = status s \<and> newStatus a = FLAGGED))
   \<and> (findUnique_submission_user_task db sid = Inr (Some (s, usr, t)) \<longrightarrow>
      (\<exists>detail a. getSubmissionDetail rt now sid aid db
                     = (Inr detail, db\<lparr>moderationAction := moderationAction db @ [a]\<rparr>)
             \<and> action a = VIEW \<and> submissionId a = sid \<and> adminId a = aid
             \<and> previousStatus a = status s \<and> newStatus a = status s)
      \<and> taskSubmission (snd (getSubmissionDetail rt now sid aid db)) = taskSubmission db
      \<and> platformUser (snd (getSubmissionDetail rt now sid aid db)) = platformUser db)"
proof (intro conjI impI)
  assume "approveSubmission cfg rt now sid aid mnote tx db = (Inr u1, db1)"
  from approveSubmission_effect [OF this]
  obtain s usr t where
    "findUnique_submission_user_task db sid = Inr (Some (s, usr, t))"
    "moderationAction db1 = moderationAction db @
       [\<lparr>action_id = fresh_id (map action_id (moderationAction db)),
         submissionId = sid, adminId = aid, action = APPROVE,
         previousStatus = status s, newStatus = APPROVED,
         reason = None, internalNote = mnote, createdAt = now\<rparr>]"
    by blast
  then show "\<exists>s a. findUnique_submission db sid = Some s
             \<and> moderationAction db1 = moderationAction db @ [a]
             \<and> action a = APPROVE \<and> submissionId a = sid \<and> adminId a = aid
             \<and> previousStatus a = status s \<and> newStatus a = APPROVED"
    using user_task_found(1) by fastforce
next
  assume "rejectSubmission cfg rt now sid aid rsn mnote db = (Inr u2, db2)"
  from rejectSubmission_effect [OF this]
  obtain s usr where
    "findUnique_submission_user db sid = Inr (Some (s, usr))"
    "moderationAction db2 = moderationAction db @
       [\<lparr>action_id = fresh_id (map action_id (moderationAction db)),
         submissionId = sid, adminId = aid, action = REJECT,
         previousStatus = status s, newStatus = REJECTED,
         reason = Some rsn, internalNote = mnote, createdAt = now\<rparr>]"
    by blast
  moreover from this(1) have "findUnique_submission db sid = Some s"
    by (auto simp: findUnique_submission_user_def split: option.splits)
  ultimately show "\<exists>s a. findUnique_submission db sid = Some s
             \<and> moderationAction db2 = moderationAction db @ [a]
             \<and> action a = REJECT \<and> submissionId a = sid \<and> adminId a = aid
             \<and> previousStatus a = status s \<and> newStatus a = REJECTED"
    by fastforce
next
  assume "flagSubmission now sid aid rsn db = (Inr u3, db3)"
  from flagSubmission_effect [OF this]
  show "\<exists>s a. findUnique_submission db sid = Some s
             \<and> moderationAction db3 = moderationAction db @ [a]
             \<and> action a = FLAG \<and> submissionId a = sid \<and> adminId a = aid
             \<and> previousStatus a = status s \<and> newStatus a = FLAGGED"
    by fastforce
next
  assume found: "findUnique_submission_user_task db sid = Inr (Some (s, usr, t))"
  from getSubmissionDetail_effect [OF this, of rt now aid]
  show "\<exists>detail a. getSubmissionDetail rt now sid aid db
                     = (Inr detail, db\<lparr>moderationAction := moderationAction db @ [a]\<rparr>)
             \<and> action a = VIEW \<and> submissionId a = sid \<and> adminId a = aid
             \<and> previousStatus a = status s \<and> newStatus a = status s"
    by fastforce
  from getSubmissionDetail_effect [OF found, of rt now aid]
  show "taskSubmission (snd (getSubmissionDetail rt now sid aid db)) = taskSubmission db"
    by fastforce
  from getSubmissionDetail_effect [OF found, of rt now aid]
  show "platformUser (snd (getSubmissionDetail rt now sid aid db)) = platformUser db"
    by fastforce
qed

lemma example_found:
  "findUnique_submission_user_task (example_db st n) 7
     = Inr (Some (example_submission st, example_user n, example_task))"
  by (simp add: findUnique_submission_user_task_def findUnique_submission_def
        findUnique_user_def findUnique_task_def example_db_def example_submission_def
        example_user_def example_task_def)

lemma example_found_submission:
  "findUnique_submission (example_db st n) 7 = Some (example_submission st)"
  by (simp add: findUnique_submission_def example_db_def example_submission_def)

lemma example_status: "status (example_submission st) = st"
  by (simp add: example_submission_def)

lemma example_no_actions: "moderationAction (example_db st n) = []"
  by (simp add: example_db_def)

lemma succeeded: "fst r = Inr () \<Longrightarrow> r = (Inr (), snd r)"
  by (cases r) simp

theorem moderation_writes_one_action_witness:
  "(\<exists>a. moderationAction (snd (approveSubmission example_cfg example_rt 100 7 9
            (Some (js ''looks good'')) (Some (js ''abc'')) (example_db PENDING 1))) = [a]
        \<and> action a = APPROVE \<and> previousStatus a = PENDING \<and> newStatus a = APPROVED)
   \<and> (\<exists>a. moderationAction (snd (rejectSubmission example_cfg example_rt 100 7 9
            (js ''the proof shows another task'') None (example_db FLAGGED 1))) = [a]
        \<and> action a = REJECT \<and> previousStatus a = FLAGGED \<and> newStatus a = REJECTED)
   \<and> (\<exists>a. moderationAction (snd (flagSubmission 100 7 9 (js ''unclear'')
            (example_db UNDER_REVIEW 1))) = [a]
        \<and> action a = FLAG \<and> previousStatus a = UNDER_REVIEW \<and> newStatus a = FLAGGED)
   \<and> (\<exists>a. moderationAction (snd (getSubmissionDetail example_rt 100 7 9
            (example_db APPROVED 0))) = [a]
        \<and> action a = VIEW \<and> previousStatus a = APPROVED \<and> newStatus a = APPROVED)"
proof -
  have a: "fst (approveSubmission example_cfg example_rt 100 7 9
            (Some (js ''looks good'')) (Some (js ''abc'')) (example_db PENDING 1)) = Inr ()"
    by code_simp
  have r: "fst (rejectSubmission example_cfg example_rt 100 7 9
            (js ''the proof shows another task'') None (example_db FLAGGED 1)) = Inr ()"
    by code_simp
  have f: "fst (flagSubmission 100 7 9 (js ''unclear'') (example_db UNDER_REVIEW 1)) = Inr ()"
    by code_simp
  note main = moderation_writes_one_action
    [where cfg = example_cfg and rt = example_rt and now = 100 and sid = 7 and aid = 9]
  have 1: "\<exists>a. moderationAction (snd (approveSubmission example_cfg example_rt 100 7 9
            (Some (js ''looks good'')) (Some (js ''abc'')) (example_db PENDING 1))) = [a]
        \<and> action a = APPROVE \<and> previousStatus a = PENDING \<and> newStatus a = APPROVED"
    using main [THEN conjunct1, rule_format, OF succeeded [OF a]]
    by (auto simp: example_found_submission example_status example_no_actions)
  have 2: "\<exists>a. moderationAction (snd (rejectSubmission example_cfg example_rt 100 7 9
            (js ''the proof shows another task'') None (example_db FLAGGED 1))) = [a]
        \<and> action a = REJECT \<and> previousStatus a = FLAGGED \<and> newStatus a = REJECTED"
    using main [THEN conjunct2, THEN conjunct1, rule_format, OF succeeded [OF r]]
    by (auto simp: example_found_submission example_status example_no_actions)
  have 3: "\<exists>a. moderationAction (snd (flagSubmission 100 7 9 (js ''unclear'')
            (example_db UNDER_REVIEW 1))) = [a]
        \<and> action a = FLAG \<and> previousStatus a = UNDER_REVIEW \<and> newStatus a = FLAGGED"
    using main [THEN conjunct2, THEN conjunct2, THEN conjunct1, rule_format,
                OF succeeded [OF f]]
    by (auto simp: example_found_submission example_status example_no_actions)
  have 4: "\<exists>a. moderationAction (snd (getSubmissionDetail example_rt 100 7 9
            (example_db APPROVED 0))) = [a]
        \<and> action a = VIEW \<and> previousStatus a = APPROVED \<and> newStatus a = APPROVED"
    using main [THEN conjunct2, THEN conjunct2, THEN conjunct2, rule_format,
                OF example_found [of APPROVED 0]]
    by (auto simp: example_status example_no_actions)
  show ?thesis using 1 2 3 4 by blast
qed

text \<open>
  Claim C10. A successful flag rewrites only the status of the submission, to FLAGGED,
  and appends one FLAG action: the reviewer, the review time, the rejection reason and
  every other column of the row stay as they were, no user row (and so no counter)
  changes, and no webhook event is created.
\<close>

theorem flagSubmission_frame:
  assumes "flagSubmission now sid aid rsn db = (Inr u, db')"
  shows "\<exists>s a. findUnique_submission db sid = Some s
           \<and> findUnique_submission db' sid = Some (s\<lparr>status := FLAGGED\<rparr>)
           \<and> taskSubmission db' =
                map (\<lambda>r. if sub_id r = sid then r\<lparr>status := FLAGGED\<rparr> else r)
                    (taskSubmission db)
           \<and> moderationAction db' = moderationAction db @ [a]
           \<and> action a = FLAG \<and> submissionId a = sid
           \<and> platformUser db' = platformUser db
           \<and> webhookEvent db' = webhookEvent db
           \<and> task db' = task db"
proof -
  from flagSubmission_effect [OF assms] obtain s where
    found: "findUnique_submission db sid = Some s"
    and db': "db' = db\<lparr>taskSubmission :=
                         map (\<lambda>r. if sub_id r = sid then r\<lparr>status := FLAGGED\<rparr> else r)
                             (taskSubmission db),
                       moderationAction := moderationAction db @
                         [\<lparr>action_id = fresh_id (map action_id (moderationAction db)),
                           submissionId = sid, adminId = aid, action = FLAG,
                           previousStatus = status s, newStatus = FLAGGED,
                           reason = Some rsn, internalNote = None, createdAt = now\<rparr>]\<rparr>"
    by blast
  have after: "findUnique_submission db' sid = Some (s\<lparr>status := FLAGGED\<rparr>)"
    using found find_map_update [of sub_id "\<lambda>r. r\<lparr>status := FLAGGED\<rparr>" sid "taskSubmission db"]
    by (simp add: db' findUnique_submission_def)
  show ?thesis
    using found after by (simp add: db')
qed

theorem flagSubmission_frame_witness:
  "fst (flagSubmission 100 7 9 (js ''unclear'') (example_db PENDING 1)) = Inr ()
   \<and> findUnique_submission (snd (flagSubmission 100 7 9 (js ''unclear'') (example_db PENDING 1))) 7
       = Some ((example_submission PENDING)\<lparr>status := FLAGGED\<rparr>)
   \<and> platformUser (snd (flagSubmission 100 7 9 (js ''unclear'') (example_db PENDING 1)))
       = [example_user 1]
   \<and> webhookEvent (snd (flagSubmission 100 7 9 (js ''unclear'') (example_db PENDING 1))) = []"
proof -
  have f: "fst (flagSubmission 100 7 9 (js ''unclear'') (example_db PENDING 1)) = Inr ()"
    by code_simp
  show ?thesis
    using f flagSubmission_frame [OF succeeded [OF f]]
    by (auto simp: example_found_submission) (simp_all add: example_db_def)
qed

text \<open>
  Claim C8. A reject request that has no reason (the field is missing or is not a string)
  or whose reason is empty, blank (\<open>trim\<close> empties it: nothing but white space and line
  terminators) or shorter than the ten code units of \<open>rejectSchema\<close> is refused and the
  database stays as it was, so the submission keeps its status and columns and no
  moderation action is written. For a moderator the refusal is a 400 response: the
  validation error of the schema, or the service's "Rejection reason is required" for a
  blank reason of ten code units or more.
\<close>

theorem reject_needs_reason:
  assumes "\<forall>rsn. rb_reason body = Text rsn \<longrightarrow> rsn = [] \<or> trim rsn = [] \<or> length rsn < 10"
  shows "\<exists>e. post_reject cfg rt now role aid sid body db = (Inl e, db)
             \<and> (role \<noteq> READ_ONLY \<longrightarrow>
                   errorHandler e = (400, ''VALIDATION_ERROR'')
                   \<or> e = badRequest ''Rejection reason is required''
                     \<and> errorHandler e = (400, ''BAD_REQUEST''))"
proof (cases "rejectSchema body")
  case (Inl e)
  then have "\<exists>issues. e = ZodError issues"
    by (auto simp: rejectSchema_def zod_result_def Let_def split: StringField.splits if_splits)
  then show ?thesis
    using Inl by (auto simp: post_reject_def canModerate_def)
next
  case (Inr parsed)
  obtain rsn mnote where parsed: "parsed = (rsn, mnote)"
    by (cases parsed)
  have field: "rb_reason body = Text rsn" and long: "\<not> length rsn < 10"
    using Inr parsed
    by (auto simp: rejectSchema_def zod_result_def Let_def string_issues_def issue_def
             split: StringField.splits if_splits)
  then have "trim rsn = []"
    using assms by auto
  then have "rejectSubmission cfg rt now sid aid rsn mnote db =
               (Inl (badRequest ''Rejection reason is required''), db)"
    by (rule rejectSubmission_blank)
  then show ?thesis
    using Inr parsed
    by (simp add: post_reject_def canModerate_def badRequest_def)
qed

theorem reject_needs_reason_witness:
  "post_reject example_cfg example_rt 100 MODERATOR 9 7
      \<lparr>rb_reason = Text (js ''too short''), rb_moderatorNote = Missing\<rparr>
      (example_db PENDING 1)
     = (Inl (ZodError [(''reason'', ''Rejection reason must be at least 10 characters'')]),
        example_db PENDING 1)
   \<and> post_reject example_cfg example_rt 100 MODERATOR 9 7
      \<lparr>rb_reason = Text (replicate 5 0xE9), rb_moderatorNote = Missing\<rparr>
      (example_db PENDING 1)
     = (Inl (ZodError [(''reason'', ''Rejection reason must be at least 10 characters'')]),
        example_db PENDING 1)
   \<and> post_reject example_cfg example_rt 100 MODERATOR 9 7
      \<lparr>rb_reason = Text (replicate 12 0xA0), rb_moderatorNote = Missing\<rparr>
      (example_db PENDING 1)
     = (Inl (badRequest ''Rejection reason is required''), example_db PENDING 1)
   \<and> post_reject example_cfg example_rt 100 MODERATOR 9 7
      \<lparr>rb_reason = Missing, rb_moderatorNote = Missing\<rparr> (example_db PENDING 1)
     = (Inl (ZodError [(''reason'', ''Required'')]), example_db PENDING 1)
   \<and> post_reject example_cfg example_rt 100 MODERATOR 9 7
      \<lparr>rb_reason = Text (replicate 12 0x20), rb_moderatorNote = NotString ''number''\<rparr>
      (example_db PENDING 1)
     = (Inl (ZodError [(''moderatorNote'', ''Expected string, received number'')]),
        example_db PENDING 1)"
proof -
  have short: "\<forall>rsn. rb_reason \<lparr>rb_reason = Text (js ''too short''),
                   rb_moderatorNote = Missing\<rparr> = Text rsn
                 \<longrightarrow> rsn = [] \<or> trim rsn = [] \<or> length rsn < 10"
    by (simp add: js_def)
  have accents: "\<forall>rsn. rb_reason \<lparr>rb_reason = Text (replicate 5 0xE9),
                   rb_moderatorNote = Missing\<rparr> = Text rsn
                 \<longrightarrow> rsn = [] \<or> trim rsn = [] \<or> length rsn < 10"
    by auto
  have t: "trim (replicate 12 0xA0) = []" "trim (replicate 12 0x20) = []"
    by code_simp+
  have blank: "\<forall>rsn. rb_reason \<lparr>rb_reason = Text (replicate 12 0xA0),
                   rb_moderatorNote = Missing\<rparr> = Text rsn
                 \<longrightarrow> rsn = [] \<or> trim rsn = [] \<or> length rsn < 10"
    using t by auto
  have missing: "\<forall>rsn. rb_reason \<lparr>rb_reason = Missing, rb_moderatorNote = Missing\<rparr> = Text rsn
                 \<longrightarrow> rsn = [] \<or> trim rsn = [] \<or> length rsn < 10"
    by simp
  have noted: "\<forall>rsn. rb_reason \<lparr>rb_reason = Text (replicate 12 0x20),
                   rb_moderatorNote = NotString ''number''\<rparr> = Text rsn
                 \<longrightarrow> rsn = [] \<or> trim rsn = [] \<or> length rsn < 10"
    using t by auto
  have 1: "fst (post_reject example_cfg example_rt 100 MODERATOR 9 7
      \<lparr>rb_reason = Text (js ''too short''), rb_moderatorNote = Missing\<rparr>
      (example_db PENDING 1))
     = Inl (ZodError [(''reason'', ''Rejection reason must be at least 10 characters'')])"
    by code_simp
  have 2: "fst (post_reject example_cfg example_rt 100 MODERATOR 9 7
      \<lparr>rb_reason = Text (replicate 5 0xE9), rb_moderatorNote = Missing\<rparr>
      (example_db PENDING 1))
     = Inl (ZodError [(''reason'', ''Rejection reason must be at least 10 characters'')])"
    by code_simp
  have 3: "fst (post_reject example_cfg example_rt 100 MODERATOR 9 7
      \<lparr>rb_reason = Text (replicate 12 0xA0), rb_moderatorNote = Missing\<rparr>
      (example_db PENDING 1))
     = Inl (badRequest ''Rejection reason is required'')"
    by code_simp
  have 4: "fst (post_reject example_cfg example_rt 100 MODERATOR 9 7
      \<lparr>rb_reason = Missing, rb_moderatorNote = Missing\<rparr> (example_db PENDING 1))
     = Inl (ZodError [(''reason'', ''Required'')])"
    by code_simp
  have 5: "fst (post_reject example_cfg example_rt 100 MODERATOR 9 7
      \<lparr>rb_reason = Text (replicate 12 0x20), rb_moderatorNote = NotString ''number''\<rparr>
      (example_db PENDING 1))
     = Inl (ZodError [(''moderatorNote'', ''Expected string, received number'')])"
    by code_simp
  note main = reject_needs_reason [where cfg = example_cfg and rt = example_rt and now = 100
      and role = MODERATOR and aid = 9 and sid = 7 and db = "example_db PENDING 1"]
  show ?thesis
    using 1 2 3 4 5 main [OF short] main [OF accents] main [OF blank] main [OF missing]
      main [OF noted]
    by auto
qed

section \<open>Claims about reward confirmation\<close>

lemma example_signed_verifies:
  "body \<noteq> [] \<Longrightarrow> verifyAppSignature example_cfg example_rt (example_signed body) = Inr True"
  using length_createHmacSignature [of example_hmac body "webhookSecret example_cfg"]
  by (auto simp: verifyAppSignature_def example_signed_def signed_payload_def example_rt_def
        verifyHmacSignature_def timingSafeEqual_def)

lemma confirmRewardSchema_parsed:
  "confirmRewardSchema body = Inr (sid, tx)
     \<longleftrightarrow> cr_submissionId body = Uuid sid \<and> cr_txHash body = Text tx \<and> 64 \<le> length tx"
  by (auto simp: confirmRewardSchema_def zod_result_def issue_def uuid_issues_def
        string_issues_def Let_def split: UuidField.splits StringField.splits if_splits)

lemma confirmRewardSchema_short:
  "cr_submissionId body = Uuid sid \<Longrightarrow> cr_txHash body = Text tx \<Longrightarrow> length tx < 64 \<Longrightarrow>
     confirmRewardSchema body
       = Inl (ZodError [(''txHash'', ''String must contain at least 64 character(s)'')])"
  by (simp add: confirmRewardSchema_def zod_result_def issue_def uuid_issues_def
        string_issues_def)

lemma reward_confirm_effect:
  assumes "reward_confirm now body db = (Inr u, db')"
  shows "\<exists>sid tx s. cr_submissionId body = Uuid sid \<and> cr_txHash body = Text tx
            \<and> findUnique_submission db sid = Some s
            \<and> status s = REWARD_PENDING
            \<and> 64 \<le> length tx
            \<and> db' = db\<lparr>taskSubmission :=
                         map (\<lambda>r. if sub_id r = sid
                                   then r\<lparr>status := REWARD_PAID,
                                          rewardTxHash := Some tx,
                                          rewardPaidAt := Some now\<rparr>
                                   else r) (taskSubmission db)\<rparr>"
proof (cases "confirmRewardSchema body")
  case (Inl e)
  then show ?thesis using assms by (simp add: reward_confirm_def)
next
  case (Inr parsed)
  obtain sid tx where parsed: "parsed = (sid, tx)"
    by (cases parsed)
  note fields = Inr [unfolded parsed confirmRewardSchema_parsed]
  show ?thesis
    using assms Inr parsed fields
    by (auto simp: reward_confirm_def update_submission_def
             split: option.splits if_splits)
qed

lemma reward_confirm_refused:
  assumes "cr_submissionId body = Uuid sid"
      and "cr_txHash body = Text tx"
      and "findUnique_submission db sid = Some s"
      and "status s \<noteq> REWARD_PENDING"
  shows "reward_confirm now body db =
           (if length tx < 64
            then (Inl (ZodError [(''txHash'', ''String must contain at least 64 character(s)'')]), db)
            else (Inl (badRequest ''Submission is not pending reward''), db))"
proof (cases "length tx < 64")
  case True
  then show ?thesis
    using confirmRewardSchema_short [OF assms(1,2)] by (simp add: reward_confirm_def)
next
  case False
  then have "confirmRewardSchema body = Inr (sid, tx)"
    using assms(1,2) by (simp add: confirmRewardSchema_parsed)
  then show ?thesis
    using False assms(3,4) by (simp add: reward_confirm_def)
qed

lemma reward_confirm_unchanged:
  assumes "cr_submissionId body = Uuid sid"
      and "findUnique_submission db sid = Some s"
      and "status s \<noteq> REWARD_PENDING"
  shows "\<exists>e. reward_confirm now body db = (Inl e, db)"
proof (cases "confirmRewardSchema body")
  case (Inl e)
  then show ?thesis by (simp add: reward_confirm_def)
next
  case (Inr parsed)
  obtain sid' tx where parsed: "parsed = (sid', tx)"
    by (cases parsed)
  have "sid' = sid"
    using Inr [unfolded parsed confirmRewardSchema_parsed] assms(1) by simp
  then show ?thesis
    using Inr parsed assms(2,3) by (simp add: reward_confirm_def)
qed

lemma reward_confirm_accepted:
  assumes "cr_submissionId body = Uuid sid"
      and "cr_txHash body = Text tx"
      and "findUnique_submission db sid = Some s"
      and "status s = REWARD_PENDING"
      and "64 \<le> length tx"
  shows "\<exists>db'. reward_confirm now body db = (Inr (), db')"
proof -
  have "confirmRewardSchema body = Inr (sid, tx)"
    using assms(1,2,5) by (simp add: confirmRewardSchema_parsed)
  then show ?thesis
    using assms(3,4) by (simp add: reward_confirm_def update_submission_def)
qed

lemma requireAppSignature_cases:
  "requireAppSignature cfg rt req db next = next
   \<or> (\<exists>e. requireAppSignature cfg rt req db next = (Inl e, db))"
  by (auto simp: requireAppSignature_def split: sum.splits)

lemma requireAppSignature_valid:
  "verifyAppSignature cfg rt req = Inr True \<Longrightarrow> requireAppSignature cfg rt req db next = next"
  by (simp add: requireAppSignature_def)

text \<open>
  Claim C7, as the code has it. Confirming payment succeeds only on a submission whose
  status is REWARD_PENDING (and does succeed there for a signed request whose
  \<open>submissionId\<close> is a uuid and whose hash is a string of at least 64 code units); it sets
  the status to REWARD_PAID, the transaction hash to the supplied one and the payment
  time, and changes nothing else. On a submission in any other status it changes nothing,
  and the refusal of a signed, well-formed request is the 400 \<open>BAD_REQUEST\<close> error
  "Submission is not pending reward".
\<close>

theorem reward_confirm_from_reward_pending:
  "(post_reward_confirm cfg rt now req body db = (Inr u, db') \<longrightarrow>
      (\<exists>sid tx s. cr_submissionId body = Uuid sid \<and> cr_txHash body = Text tx
           \<and> findUnique_submission db sid = Some s
           \<and> status s = REWARD_PENDING
           \<and> findUnique_submission db' sid
               = Some (s\<lparr>status := REWARD_PAID, rewardTxHash := Some tx,
                         rewardPaidAt := Some now\<rparr>)
           \<and> db' = db\<lparr>taskSubmission :=
                        map (\<lambda>r. if sub_id r = sid
                                  then r\<lparr>status := REWARD_PAID,
                                         rewardTxHash := Some tx,
                                         rewardPaidAt := Some now\<rparr>
                                  else r) (taskSubmission db)\<rparr>))
   \<and> (cr_submissionId body = Uuid sid \<and> cr_txHash body = Text tx
        \<and> findUnique_submission db sid = Some s
        \<and> verifyAppSignature cfg rt req = Inr True \<and> 64 \<le> length tx \<longrightarrow>
        (status s = REWARD_PENDING \<longrightarrow>
           (\<exists>db'. post_reward_confirm cfg rt now req body db = (Inr (), db')))
        \<and> (status s \<noteq> REWARD_PENDING \<longrightarrow>
           post_reward_confirm cfg rt now req body db
             = (Inl (badRequest ''Submission is not pending reward''), db)
           \<and> errorHandler (badRequest ''Submission is not pending reward'')
               = (400, ''BAD_REQUEST'')))
   \<and> (cr_submissionId body = Uuid sid \<and> findUnique_submission db sid = Some s
        \<and> status s \<noteq> REWARD_PENDING \<longrightarrow>
        (\<exists>e. post_reward_confirm cfg rt now req body db = (Inl e, db)))"
proof (intro conjI impI)
  assume ok: "post_reward_confirm cfg rt now req body db = (Inr u, db')"
  have "reward_confirm now body db = (Inr u, db')"
    using ok requireAppSignature_cases [of cfg rt req db "reward_confirm now body db"]
    by (auto simp: post_reward_confirm_def)
  from reward_confirm_effect [OF this] obtain sid tx s where
    fields: "cr_submissionId body = Uuid sid" "cr_txHash body = Text tx"
    and s: "findUnique_submission db sid = Some s" "status s = REWARD_PENDING"
    and db': "db' = db\<lparr>taskSubmission :=
                         map (\<lambda>r. if sub_id r = sid
                                   then r\<lparr>status := REWARD_PAID,
                                          rewardTxHash := Some tx,
                                          rewardPaidAt := Some now\<rparr>
                                   else r) (taskSubmission db)\<rparr>"
    by blast
  have "findUnique_submission db' sid
          = Some (s\<lparr>status := REWARD_PAID, rewardTxHash := Some tx,
                    rewardPaidAt := Some now\<rparr>)"
    using s(1)
      find_map_update [of sub_id "\<lambda>r. r\<lparr>status := REWARD_PAID, rewardTxHash := Some tx,
                                 rewardPaidAt := Some now\<rparr>" sid "taskSubmission db"]
    by (simp add: db' findUnique_submission_def)
  then show "\<exists>sid tx s. cr_submissionId body = Uuid sid \<and> cr_txHash body = Text tx
           \<and> findUnique_submission db sid = Some s
           \<and> status s = REWARD_PENDING
           \<and> findUnique_submission db' sid
               = Some (s\<lparr>status := REWARD_PAID, rewardTxHash := Some tx,
                         rewardPaidAt := Some now\<rparr>)
           \<and> db' = db\<lparr>taskSubmission :=
                        map (\<lambda>r. if sub_id r = sid
                                  then r\<lparr>status := REWARD_PAID,
                                         rewardTxHash := Some tx,
                                         rewardPaidAt := Some now\<rparr>
                                  else r) (taskSubmission db)\<rparr>"
    using fields s db' by blast
next
  assume h: "cr_submissionId body = Uuid sid \<and> cr_txHash body = Text tx
        \<and> findUnique_submission db sid = Some s
        \<and> verifyAppSignature cfg rt req = Inr True \<and> 64 \<le> length tx"
    and st: "status s = REWARD_PENDING"
  show "\<exists>db'. post_reward_confirm cfg rt now req body db = (Inr (), db')"
    using h st reward_confirm_accepted [of body sid tx db s now]
    by (simp add: post_reward_confirm_def requireAppSignature_valid)
next
  assume h: "cr_submissionId body = Uuid sid \<and> cr_txHash body = Text tx
        \<and> findUnique_submission db sid = Some s
        \<and> verifyAppSignature cfg rt req = Inr True \<and> 64 \<le> length tx"
    and st: "status s \<noteq> REWARD_PENDING"
  show "post_reward_confirm cfg rt now req body db
          = (Inl (badRequest ''Submission is not pending reward''), db)"
    using h st reward_confirm_refused [of body sid tx db s now]
    by (simp add: post_reward_confirm_def requireAppSignature_valid)
  show "errorHandler (badRequest ''Submission is not pending reward'') = (400, ''BAD_REQUEST'')"
    by (simp add: badRequest_def)
next
  assume h: "cr_submissionId body = Uuid sid \<and> findUnique_submission db sid = Some s
        \<and> status s \<noteq> REWARD_PENDING"
  show "\<exists>e. post_reward_confirm cfg rt now req body db = (Inl e, db)"
    using h reward_confirm_unchanged [of body sid db s now]
      requireAppSignature_cases [of cfg rt req db "reward_confirm now body db"]
    by (auto simp: post_reward_confirm_def)
qed

theorem reward_confirm_from_reward_pending_witness:
  "fst (post_reward_confirm example_cfg example_rt 100 (example_signed ''{}'')
          \<lparr>cr_submissionId = Uuid 7, cr_txHash = Text (replicate 64 0x61)\<rparr>
          (example_db REWARD_PENDING 0)) = Inr ()
   \<and> findUnique_submission
        (snd (post_reward_confirm example_cfg example_rt 100 (example_signed ''{}'')
                \<lparr>cr_submissionId = Uuid 7, cr_txHash = Text (replicate 64 0x61)\<rparr>
                (example_db REWARD_PENDING 0))) 7
       = Some ((example_submission REWARD_PENDING)
                 \<lparr>status := REWARD_PAID, rewardTxHash := Some (replicate 64 0x61),
                  rewardPaidAt := Some 100\<rparr>)
   \<and> post_reward_confirm example_cfg example_rt 100 (example_signed ''{}'')
        \<lparr>cr_submissionId = Uuid 7, cr_txHash = Text (replicate 64 0x61)\<rparr>
        (example_db REJECTED 0)
       = (Inl (badRequest ''Submission is not pending reward''), example_db REJECTED 0)
   \<and> (\<exists>e. post_reward_confirm example_cfg example_rt 100 (example_signed ''{}'')
        \<lparr>cr_submissionId = Uuid 7, cr_txHash = Text (replicate 32 0xE9)\<rparr>
        (example_db REJECTED 0) = (Inl e, example_db REJECTED 0))"
proof -
  have sig: "verifyAppSignature example_cfg example_rt (example_signed ''{}'') = Inr True"
    by (rule example_signed_verifies) simp
  have len: "64 \<le> length (replicate 64 (0x61 :: 16 word))"
    by simp
  have found: "findUnique_submission (example_db st 0) 7 = Some (example_submission st)" for st
    by (simp add: example_found_submission)
  note main = reward_confirm_from_reward_pending
    [where cfg = example_cfg and rt = example_rt and now = 100
       and req = "example_signed ''{}''" and sid = 7 and tx = "replicate 64 0x61"
       and body = "\<lparr>cr_submissionId = Uuid 7, cr_txHash = Text (replicate 64 0x61)\<rparr>"]
  have accepted: "\<exists>db'. post_reward_confirm example_cfg example_rt 100 (example_signed ''{}'')
          \<lparr>cr_submissionId = Uuid 7, cr_txHash = Text (replicate 64 0x61)\<rparr>
          (example_db REWARD_PENDING 0) = (Inr (), db')"
    using main [where db = "example_db REWARD_PENDING 0"
                  and s = "example_submission REWARD_PENDING"]
      found sig len by (simp add: example_status)
  then have ok: "fst (post_reward_confirm example_cfg example_rt 100 (example_signed ''{}'')
          \<lparr>cr_submissionId = Uuid 7, cr_txHash = Text (replicate 64 0x61)\<rparr>
          (example_db REWARD_PENDING 0)) = Inr ()"
    by auto
  have paid: "findUnique_submission
        (snd (post_reward_confirm example_cfg example_rt 100 (example_signed ''{}'')
                \<lparr>cr_submissionId = Uuid 7, cr_txHash = Text (replicate 64 0x61)\<rparr>
                (example_db REWARD_PENDING 0))) 7
       = Some ((example_submission REWARD_PENDING)
                 \<lparr>status := REWARD_PAID, rewardTxHash := Some (replicate 64 0x61),
                  rewardPaidAt := Some 100\<rparr>)"
    using main [THEN conjunct1, rule_format, OF succeeded [OF ok]]
    by (auto simp: example_found_submission)
  have refused: "post_reward_confirm example_cfg example_rt 100 (example_signed ''{}'')
        \<lparr>cr_submissionId = Uuid 7, cr_txHash = Text (replicate 64 0x61)\<rparr>
        (example_db REJECTED 0)
       = (Inl (badRequest ''Submission is not pending reward''), example_db REJECTED 0)"
    using main [where db = "example_db REJECTED 0" and s = "example_submission REJECTED"]
      found sig len by (simp add: example_status)
  have accents: "\<exists>e. post_reward_confirm example_cfg example_rt 100 (example_signed ''{}'')
        \<lparr>cr_submissionId = Uuid 7, cr_txHash = Text (replicate 32 0xE9)\<rparr>
        (example_db REJECTED 0) = (Inl e, example_db REJECTED 0)"
    using reward_confirm_from_reward_pending
      [where cfg = example_cfg and rt = example_rt and now = 100
         and req = "example_signed ''{}''" and sid = 7
         and body = "\<lparr>cr_submissionId = Uuid 7, cr_txHash = Text (replicate 32 0xE9)\<rparr>"
         and db = "example_db REJECTED 0" and s = "example_submission REJECTED"]
      found by (simp add: example_status)
  show ?thesis using ok paid refused accents by blast
qed

text \<open>
  Claim C7, as stated, fails on the class of the refusal: confirming payment for an
  APPROVED submission, with a valid signature and a well-formed hash, is answered with
  status 400 and code \<open>BAD_REQUEST\<close>, not with the 409 of the Conflict class.
\<close>

theorem reward_confirm_refusal_is_not_conflict:
  "status (example_submission APPROVED) \<noteq> REWARD_PENDING
   \<and> post_reward_confirm example_cfg example_rt 100 (example_signed ''{}'')
        \<lparr>cr_submissionId = Uuid 7, cr_txHash = Text (replicate 64 0x61)\<rparr>
        (example_db APPROVED 0)
       = (Inl (AppError 400 ''BAD_REQUEST'' ''Submission is not pending reward''),
          example_db APPROVED 0)
   \<and> errorHandler (AppError 400 ''BAD_REQUEST'' ''Submission is not pending reward'')
       = (400, ''BAD_REQUEST'')
   \<and> errorHandler (conflict ''Submission is not pending reward'') = (409, ''CONFLICT'')"
proof -
  have sig: "verifyAppSignature example_cfg example_rt (example_signed ''{}'') = Inr True"
    by (rule example_signed_verifies) simp
  have "confirmRewardSchema \<lparr>cr_submissionId = Uuid 7, cr_txHash = Text (replicate 64 0x61)\<rparr>
          = Inr (7, replicate 64 0x61)"
    by (simp add: confirmRewardSchema_parsed)
  then have "reward_confirm 100
          \<lparr>cr_submissionId = Uuid 7, cr_txHash = Text (replicate 64 0x61)\<rparr>
          (example_db APPROVED 0)
        = (Inl (badRequest ''Submission is not pending reward''), example_db APPROVED 0)"
    by (simp add: reward_confirm_def example_found_submission example_status)
  then show ?thesis
    by (simp add: post_reward_confirm_def requireAppSignature_valid [OF sig] badRequest_def
          conflict_def example_status)
qed

section \<open>Counters follow the submissions\<close>

lemma le_foldr_max: "x \<in> set ids \<Longrightarrow> x \<le> foldr max ids (0::nat)"
  by (induction ids) auto

lemma fresh_id_notin: "fresh_id ids \<notin> set ids"
  using le_foldr_max [of "fresh_id ids" ids] by (auto simp: fresh_id_def)

lemma map_update_absent:
  "i \<notin> key ` set xs \<Longrightarrow> map (\<lambda>r. if key r = i then f r else r) xs = xs"
  by (induction xs) auto

lemma count_map_update:
  assumes "distinct (map key xs)"
      and "find (\<lambda>r. key r = i) xs = Some s"
  shows "int (length (filter Q (map (\<lambda>r. if key r = i then f r else r) xs)))
         = int (length (filter Q xs)) + of_bool (Q (f s)) - of_bool (Q s)"
  using assms
proof (induction xs)
  case Nil
  then show ?case by simp
next
  case (Cons x xs)
  show ?case
  proof (cases "key x = i")
    case True
    then have "x = s" using Cons.prems(2) by simp
    moreover have "i \<notin> key ` set xs" using Cons.prems(1) True by auto
    ultimately show ?thesis
      using True by (simp add: map_update_absent del: length_filter_map)
  next
    case False
    then have "find (\<lambda>r. key r = i) xs = Some s" using Cons.prems(2) by simp
    moreover have "distinct (map key xs)" using Cons.prems(1) by simp
    ultimately have "int (length (filter Q (map (\<lambda>r. if key r = i then f r else r) xs)))
         = int (length (filter Q xs)) + of_bool (Q (f s)) - of_bool (Q s)"
      using Cons.IH by simp
    then show ?thesis
      using False by (simp del: length_filter_map)
  qed
qed

lemma map_key_update:
  "(\<And>r. key (f r) = key r)
   \<Longrightarrow> map (key \<circ> (\<lambda>r. if key r = i then f r else r)) xs = map key xs"
  by (induction xs) auto

lemma store_ok_update:
  assumes "store_ok db"
      and "taskSubmission db' = map (\<lambda>r. if sub_id r = i then f r else r) (taskSubmission db)"
      and "\<And>r. userId (f r) = userId r" and "\<And>r. sub_id (f r) = sub_id r"
      and "map user_id (platformUser db') = map user_id (platformUser db)"
  shows "store_ok db'"
proof -
  have keys: "distinct (map sub_id (taskSubmission db'))"
    using assms(1,4) by (simp add: assms(2) store_ok_def map_key_update)
  have "set (map user_id (platformUser db')) = set (map user_id (platformUser db))"
    using assms(5) by simp
  then have "userId r \<in> set (map user_id (platformUser db'))"
    if "r \<in> set (taskSubmission db')" for r
    using that assms(1,3) unfolding store_ok_def list_all_iff assms(2) by auto
  then show ?thesis
    using keys unfolding store_ok_def list_all_iff by blast
qed

lemma consistent_update:
  assumes "store_ok db" and "counters_consistent db"
      and "findUnique_submission db i = Some s"
      and "taskSubmission db' = map (\<lambda>r. if sub_id r = i then f r else r) (taskSubmission db)"
      and "\<And>r. userId (f r) = userId r"
      and "platformUser db' = map (\<lambda>r. if user_id r = userId s then g r else r) (platformUser db)"
      and "\<And>r. user_id (g r) = user_id r"
      and "\<And>r. totalPending (g r) = totalPending r
                 + (if awaiting_review (status (f s)) then 1 else 0)
                 - (if awaiting_review (status s) then 1 else 0)"
  shows "counters_consistent db'"
proof -
  have count: "count_submissions awaiting_review db' uid
                 = count_submissions awaiting_review db uid
                   + (if userId s = uid \<and> awaiting_review (status (f s)) then 1 else 0)
                   - (if userId s = uid \<and> awaiting_review (status s) then 1 else 0)" for uid
    using assms(1,3)
      count_map_update [of sub_id "taskSubmission db" i s
        "\<lambda>r. userId r = uid \<and> awaiting_review (status r)" f]
    by (simp add: count_submissions_def assms(4,5) store_ok_def findUnique_submission_def
             del: length_filter_map)
  show ?thesis
    using assms(2)
    by (auto simp: counters_consistent_def list_all_iff assms(6,7,8) count)
qed

lemma transition_preserves:
  assumes "store_ok db" and "counters_consistent db"
      and "findUnique_submission db i = Some s"
      and "taskSubmission db' = map (\<lambda>r. if sub_id r = i then f r else r) (taskSubmission db)"
      and "\<And>r. userId (f r) = userId r" and "\<And>r. sub_id (f r) = sub_id r"
      and "platformUser db' = map (\<lambda>r. if user_id r = userId s then g r else r) (platformUser db)"
      and "\<And>r. user_id (g r) = user_id r"
      and "\<And>r. totalPending (g r) = totalPending r
                 + (if awaiting_review (status (f s)) then 1 else 0)
                 - (if awaiting_review (status s) then 1 else 0)"
  shows "store_ok db' \<and> counters_consistent db'"
proof
  have "map user_id (platformUser db') = map user_id (platformUser db)"
    using assms(8) by (simp add: assms(7) map_key_update)
  then show "store_ok db'"
    using store_ok_update [OF assms(1,4,5,6)] by simp
  show "counters_consistent db'"
    by (rule consistent_update [OF assms(1,2,3,4,5,7,8,9)])
qed

lemma unchanged_preserves:
  assumes "store_ok db" and "counters_consistent db"
      and "taskSubmission db' = taskSubmission db" and "platformUser db' = platformUser db"
  shows "store_ok db' \<and> counters_consistent db'"
  using assms by (simp add: store_ok_def counters_consistent_def count_submissions_def)

lemma approve_preserves:
  assumes "store_ok db" and "counters_consistent db"
  shows "store_ok (snd (approveSubmission cfg rt now sid aid mnote tx db))
         \<and> counters_consistent (snd (approveSubmission cfg rt now sid aid mnote tx db))"
proof (cases "approveSubmission cfg rt now sid aid mnote tx db")
  case (Pair res db')
  show ?thesis
  proof (cases res)
    case (Inl e)
    then have "db' = db"
      using Pair
      by (auto simp: approveSubmission_def Let_def split: sum.splits option.splits if_splits)
    then show ?thesis using Pair assms by simp
  next
    case (Inr u)
    from approveSubmission_effect [OF Pair [unfolded Inr]]
    obtain s usr t where
      found: "findUnique_submission_user_task db sid = Inr (Some (s, usr, t))"
      and st: "status s \<in> {PENDING, UNDER_REVIEW, FLAGGED}"
      and subs: "taskSubmission db' =
                 map (\<lambda>r. if sub_id r = sid
                           then set_optional tx (\<lambda>v r. r\<lparr>rewardTxHash := v\<rparr>)
                                  (set_optional mnote (\<lambda>v r. r\<lparr>moderatorNote := v\<rparr>)
                                    (r\<lparr>status := APPROVED, reviewedById := Some aid,
                                       reviewedAt := Some now\<rparr>))
                           else r) (taskSubmission db)"
      and users: "platformUser db' =
                 map (\<lambda>r. if user_id r = userId s
                           then r\<lparr>totalApproved := totalApproved r + 1,
                                  totalPending := totalPending r - 1\<rparr>
                           else r) (platformUser db)"
      by blast
    have "store_ok db' \<and> counters_consistent db'"
      using st
      by (intro transition_preserves [OF assms user_task_found(1) [OF found] subs _ _ users])
         (auto simp: set_optional_def awaiting_review_def split: option.splits)
    then show ?thesis using Pair by simp
  qed
qed

lemma reject_preserves:
  assumes "store_ok db" and "counters_consistent db"
  shows "store_ok (snd (rejectSubmission cfg rt now sid aid rsn mnote db))
         \<and> counters_consistent (snd (rejectSubmission cfg rt now sid aid rsn mnote db))"
proof (cases "rejectSubmission cfg rt now sid aid rsn mnote db")
  case (Pair res db')
  show ?thesis
  proof (cases res)
    case (Inl e)
    then have "db' = db"
      using Pair
      by (auto simp: rejectSubmission_def Let_def split: sum.splits option.splits if_splits)
    then show ?thesis using Pair assms by simp
  next
    case (Inr u)
    from rejectSubmission_effect [OF Pair [unfolded Inr]]
    obtain s usr where
      found: "findUnique_submission_user db sid = Inr (Some (s, usr))"
      and st: "status s \<in> {PENDING, UNDER_REVIEW, FLAGGED}"
      and subs: "taskSubmission db' =
                 map (\<lambda>r. if sub_id r = sid
                           then set_optional mnote (\<lambda>v r. r\<lparr>moderatorNote := v\<rparr>)
                                  (r\<lparr>status := REJECTED, reviewedById := Some aid,
                                     reviewedAt := Some now, rejectionReason := Some rsn\<rparr>)
                           else r) (taskSubmission db)"
      and users: "platformUser db' =
                 map (\<lambda>r. if user_id r = userId s
                           then r\<lparr>totalRejected := totalRejected r + 1,
                                  totalPending := totalPending r - 1\<rparr>
                           else r) (platformUser db)"
      by blast
    have found': "findUnique_submission db sid = Some s"
      using found by (auto simp: findUnique_submission_user_def split: option.splits)
    have "store_ok db' \<and> counters_consistent db'"
      using st
      by (intro transition_preserves [OF assms found' subs _ _ users])
         (auto simp: set_optional_def awaiting_review_def split: option.splits)
    then show ?thesis using Pair by simp
  qed
qed

lemma map_id_update: "map (\<lambda>r. if key r = k then r else r) xs = xs"
  by simp

lemma flag_preserves:
  assumes "store_ok db" and "counters_consistent db"
  shows "store_ok (snd (flagSubmission now sid aid rsn db))
         \<and> counters_consistent (snd (flagSubmission now sid aid rsn db))"
proof (cases "flagSubmission now sid aid rsn db")
  case (Pair res db')
  show ?thesis
  proof (cases res)
    case (Inl e)
    then have "db' = db"
      using Pair
      by (auto simp: flagSubmission_def Let_def split: sum.splits option.splits if_splits)
    then show ?thesis using Pair assms by simp
  next
    case (Inr u)
    from flagSubmission_effect [OF Pair [unfolded Inr]]
    obtain s where
      found: "findUnique_submission db sid = Some s"
      and st: "status s = PENDING \<or> status s = UNDER_REVIEW"
      and db': "db' = db\<lparr>taskSubmission :=
                         map (\<lambda>r. if sub_id r = sid then r\<lparr>status := FLAGGED\<rparr> else r)
                             (taskSubmission db),
                       moderationAction := moderationAction db @
                         [\<lparr>action_id = fresh_id (map action_id (moderationAction db)),
                           submissionId = sid, adminId = aid, action = FLAG,
                           previousStatus = status s, newStatus = FLAGGED,
                           reason = Some rsn, internalNote = None, createdAt = now\<rparr>]\<rparr>"
      by blast
    have "store_ok db' \<and> counters_consistent db'"
      using st
      by (intro transition_preserves [OF assms found, where g = "\<lambda>r. r"
                and f = "\<lambda>r. r\<lparr>status := FLAGGED\<rparr>"])
         (auto simp: db' awaiting_review_def)
    then show ?thesis using Pair by simp
  qed
qed

lemma view_preserves:
  assumes "store_ok db" and "counters_consistent db"
  shows "store_ok (snd (getSubmissionDetail rt now sid aid db))
         \<and> counters_consistent (snd (getSubmissionDetail rt now sid aid db))"
  by (rule unchanged_preserves [OF assms])
     (auto simp: getSubmissionDetail_def create_action_def Let_def
           split: sum.splits option.splits prod.splits)

lemma find_narrower:
  assumes "distinct (map key xs)"
      and "find (\<lambda>r. key r = i \<and> Q r) xs = Some a"
  shows "find (\<lambda>r. key r = i) xs = Some a"
  using assms
proof (induction xs)
  case Nil
  then show ?case by simp
next
  case (Cons x xs)
  show ?case
  proof (cases "key x = i")
    case True
    show ?thesis
    proof (cases "Q x")
      case True
      then show ?thesis using \<open>key x = i\<close> Cons.prems(2) by simp
    next
      case False
      then have "find (\<lambda>r. key r = i \<and> Q r) xs = Some a"
        using Cons.prems(2) by simp
      then have "a \<in> set xs \<and> key a = i"
        by (auto simp: find_Some_iff)
      then have "i \<in> key ` set xs" by blast
      then show ?thesis using Cons.prems(1) True by simp
    qed
  next
    case False
    then show ?thesis using Cons by simp
  qed
qed

lemma findFirst_submission_of_wallet_found:
  assumes "store_ok db"
      and "findFirst_submission_of_wallet db i wallet = Inr (Some (s, u, t))"
  shows "findUnique_submission db i = Some s"
proof -
  have "find (\<lambda>r. sub_id r = i
                   \<and> (case findUnique_user db (userId r) of
                         None \<Rightarrow> False | Some u \<Rightarrow> walletAddress u = wallet))
             (taskSubmission db) = Some s"
    using assms(2)
    by (auto simp: findFirst_submission_of_wallet_def split: option.splits)
  then show ?thesis
    using assms(1) find_narrower [of sub_id "taskSubmission db" i _ s]
    by (simp add: store_ok_def findUnique_submission_def)
qed

lemma reward_claim_result:
  assumes "store_ok db"
  shows "snd (reward_claim body db) = db
   \<or> (\<exists>sid s. findUnique_submission db sid = Some s
          \<and> status s = APPROVED
          \<and> snd (reward_claim body db) =
              db\<lparr>taskSubmission :=
                    map (\<lambda>r. if sub_id r = sid
                              then r\<lparr>status := REWARD_PENDING\<rparr> else r) (taskSubmission db)\<rparr>)"
proof (cases "claimRewardSchema body")
  case (Inl e)
  then show ?thesis by (simp add: reward_claim_def)
next
  case (Inr parsed)
  obtain wallet sid where parsed: "parsed = (wallet, sid)"
    by (cases parsed)
  show ?thesis
  proof (cases "findFirst_submission_of_wallet db sid wallet")
    case (Inl e)
    then show ?thesis using Inr parsed by (simp add: reward_claim_def)
  next
    case found: (Inr found)
    show ?thesis
    proof (cases found)
      case None
      then show ?thesis using Inr parsed found by (simp add: reward_claim_def)
    next
      case (Some row)
      obtain s u t where row: "row = (s, u, t)" by (cases row)
      have "findUnique_submission db sid = Some s"
        using findFirst_submission_of_wallet_found [OF assms] found Some row by simp
      then show ?thesis
        using Inr parsed found Some row
        by (auto simp: reward_claim_def update_submission_def)
    qed
  qed
qed

lemma requireAppSignature_snd:
  "snd (requireAppSignature cfg rt req db next) = db
   \<or> snd (requireAppSignature cfg rt req db next) = snd next"
  by (auto simp: requireAppSignature_def split: sum.splits)

lemma claim_preserves:
  assumes "store_ok db" and "counters_consistent db"
  shows "store_ok (snd (post_reward_claim cfg rt req body db))
         \<and> counters_consistent (snd (post_reward_claim cfg rt req body db))"
proof -
  have inner: "store_ok (snd (reward_claim body db))
               \<and> counters_consistent (snd (reward_claim body db))"
    using reward_claim_result [OF assms(1), of body]
  proof
    assume "snd (reward_claim body db) = db"
    then show ?thesis using assms by simp
  next
    assume "\<exists>sid s. findUnique_submission db sid = Some s
          \<and> status s = APPROVED
          \<and> snd (reward_claim body db) =
              db\<lparr>taskSubmission :=
                    map (\<lambda>r. if sub_id r = sid
                              then r\<lparr>status := REWARD_PENDING\<rparr> else r) (taskSubmission db)\<rparr>"
    then obtain sid s where
      found: "findUnique_submission db sid = Some s"
      and st: "status s = APPROVED"
      and db': "snd (reward_claim body db) =
              db\<lparr>taskSubmission :=
                    map (\<lambda>r. if sub_id r = sid
                              then r\<lparr>status := REWARD_PENDING\<rparr> else r) (taskSubmission db)\<rparr>"
      by blast
    show ?thesis
      using st
      by (intro transition_preserves [OF assms found, where g = "\<lambda>r. r"
                and f = "\<lambda>r. r\<lparr>status := REWARD_PENDING\<rparr>"])
         (auto simp: db' awaiting_review_def)
  qed
  show ?thesis
    using inner assms requireAppSignature_snd [of cfg rt req db "reward_claim body db"]
    by (auto simp: post_reward_claim_def)
qed

lemma confirm_reward_preserves:
  assumes "store_ok db" and "counters_consistent db"
  shows "store_ok (snd (post_reward_confirm cfg rt now req body db))
         \<and> counters_consistent (snd (post_reward_confirm cfg rt now req body db))"
proof -
  have inner: "store_ok (snd (reward_confirm now body db))
               \<and> counters_consistent (snd (reward_confirm now body db))"
  proof (cases "reward_confirm now body db")
    case (Pair res db')
    show ?thesis
    proof (cases res)
      case (Inl e)
      then have "db' = db"
        using Pair
        by (auto simp: reward_confirm_def split: sum.splits option.splits if_splits prod.splits)
      then show ?thesis using Pair assms by simp
    next
      case (Inr u)
      from reward_confirm_effect [OF Pair [unfolded Inr]]
      obtain sid tx s where
        found: "findUnique_submission db sid = Some s"
        and st: "status s = REWARD_PENDING"
        and db': "db' = db\<lparr>taskSubmission :=
                         map (\<lambda>r. if sub_id r = sid
                                   then r\<lparr>status := REWARD_PAID,
                                          rewardTxHash := Some tx,
                                          rewardPaidAt := Some now\<rparr>
                                   else r) (taskSubmission db)\<rparr>"
        by blast
      have "store_ok db' \<and> counters_consistent db'"
        using st
        by (intro transition_preserves [OF assms found, where g = "\<lambda>r. r"
                and f = "\<lambda>r. r\<lparr>status := REWARD_PAID,
                                          rewardTxHash := Some tx,
                                          rewardPaidAt := Some now\<rparr>"])
           (auto simp: db' awaiting_review_def)
      then show ?thesis using Pair by simp
    qed
  qed
  show ?thesis
    using inner assms requireAppSignature_snd [of cfg rt req db "reward_confirm now body db"]
    by (auto simp: post_reward_confirm_def)
qed

lemma find_user_id_mem:
  "find P (platformUser db) = Some u \<Longrightarrow> user_id u \<in> set (map user_id (platformUser db))"
  by (auto simp: find_Some_iff)

lemma created_preserves:
  assumes "store_ok db" and "counters_consistent db"
      and "k \<in> set (map user_id (platformUser db))"
      and "taskSubmission db' = taskSubmission db @ [new]"
      and "sub_id new = fresh_id (map sub_id (taskSubmission db))"
      and "userId new = k" and "status new = PENDING"
      and "platformUser db' =
             map (\<lambda>r. if user_id r = k then r\<lparr>totalPending := totalPending r + 1\<rparr> else r)
                 (platformUser db)"
  shows "store_ok db' \<and> counters_consistent db'"
proof
  have ids: "map user_id (platformUser db') = map user_id (platformUser db)"
    by (simp add: assms(8) map_key_update)
  have "sub_id new \<notin> set (map sub_id (taskSubmission db))"
    using fresh_id_notin [of "map sub_id (taskSubmission db)"] by (simp add: assms(5))
  then show "store_ok db'"
    using assms(1,3,6) unfolding store_ok_def list_all_iff ids
    by (auto simp: assms(4))
  have count: "count_submissions awaiting_review db' uid
                 = count_submissions awaiting_review db uid + (if uid = k then 1 else 0)" for uid
    by (auto simp: count_submissions_def assms(4,6,7) awaiting_review_def)
  show "counters_consistent db'"
    using assms(2)
    by (auto simp: counters_consistent_def list_all_iff assms(8) count)
qed

lemma upload_confirm_parsed:
  assumes "confirmUploadSchema body = Inr dat"
  shows
  "snd (post_upload_confirm cfg rt now req body db) = db
   \<or> (\<exists>user fileType.
         findUnique_user_by_wallet db (cu_walletAddress dat) = Some user
         \<and> snd (post_upload_confirm cfg rt now req body db) =
             db\<lparr>taskSubmission := taskSubmission db @
                  [\<lparr>sub_id = fresh_id (map sub_id (taskSubmission db)),
                    userId = user_id user, taskId = cu_taskId dat, status = PENDING,
                    submittedAt = now, reviewedAt = None, reviewedById = None,
                    rejectionReason = None, moderatorNote = None,
                    proofFileKey = Some (cu_uploadKey dat), proofFileType = Some fileType,
                    proofUploadedAt = Some now, userNote = cu_userNote dat,
                    rewardTxHash = None, rewardPaidAt = None,
                    submissionHash = createSubmissionHash rt (cu_walletAddress dat)
                                       (cu_taskId dat) now\<rparr>],
                platformUser :=
                  map (\<lambda>r. if user_id r = user_id user
                            then r\<lparr>totalPending := totalPending r + 1\<rparr> else r)
                      (platformUser db)\<rparr>)"
  using assms
  by (auto simp: post_upload_confirm_def create_submission_def update_user_def Let_def
           split: sum.splits option.splits if_splits prod.splits)

lemma upload_confirm_preserves:
  assumes "store_ok db" and "counters_consistent db"
  shows "store_ok (snd (post_upload_confirm cfg rt now req body db))
         \<and> counters_consistent (snd (post_upload_confirm cfg rt now req body db))"
proof (cases "confirmUploadSchema body")
  case (Inl e)
  then have "snd (post_upload_confirm cfg rt now req body db) = db"
    by (simp add: post_upload_confirm_def split: sum.splits)
  then show ?thesis using assms by simp
next
  case (Inr dat)
  from upload_confirm_parsed [OF Inr, of cfg rt now req db] show ?thesis
  proof (elim disjE exE conjE)
    assume "snd (post_upload_confirm cfg rt now req body db) = db"
    then show ?thesis using assms by simp
  next
    fix user fileType
    assume user: "findUnique_user_by_wallet db (cu_walletAddress dat) = Some user"
      and db': "snd (post_upload_confirm cfg rt now req body db) =
               db\<lparr>taskSubmission := taskSubmission db @
                    [\<lparr>sub_id = fresh_id (map sub_id (taskSubmission db)),
                      userId = user_id user, taskId = cu_taskId dat, status = PENDING,
                      submittedAt = now, reviewedAt = None, reviewedById = None,
                      rejectionReason = None, moderatorNote = None,
                      proofFileKey = Some (cu_uploadKey dat), proofFileType = Some fileType,
                      proofUploadedAt = Some now, userNote = cu_userNote dat,
                      rewardTxHash = None, rewardPaidAt = None,
                      submissionHash = createSubmissionHash rt (cu_walletAddress dat)
                                         (cu_taskId dat) now\<rparr>],
                  platformUser :=
                    map (\<lambda>r. if user_id r = user_id user
                              then r\<lparr>totalPending := totalPending r + 1\<rparr> else r)
                        (platformUser db)\<rparr>"
    have mem: "user_id user \<in> set (map user_id (platformUser db))"
      using user find_user_id_mem by (simp add: findUnique_user_by_wallet_def)
    show ?thesis
      by (rule created_preserves [OF assms mem]) (simp add: db')+
  qed
qed

lemma user_added_preserves:
  assumes "store_ok db" and "counters_consistent db"
      and "taskSubmission db' = taskSubmission db"
      and "platformUser db' = platformUser db @ [u]"
      and "user_id u = fresh_id (map user_id (platformUser db))"
      and "totalPending u = 0"
  shows "store_ok db' \<and> counters_consistent db'"
proof
  show "store_ok db'"
    using assms(1) unfolding store_ok_def list_all_iff by (auto simp: assms(3,4))
  have "user_id u \<notin> set (map user_id (platformUser db))"
    using fresh_id_notin [of "map user_id (platformUser db)"] by (simp add: assms(5))
  then have "\<forall>s \<in> set (taskSubmission db). userId s \<noteq> user_id u"
    using assms(1) unfolding store_ok_def list_all_iff by metis
  then have "filter (\<lambda>s. userId s = user_id u \<and> awaiting_review (status s)) (taskSubmission db)
               = []"
    by (auto simp: filter_empty_conv)
  then have "count_submissions awaiting_review db (user_id u) = 0"
    by (simp add: count_submissions_def)
  then show "counters_consistent db'"
    using assms(2)
    by (simp add: counters_consistent_def count_submissions_def assms(3,4,6))
qed

lemma upload_request_parsed:
  assumes "requestUploadSchema body = Inr dat"
  shows "snd (post_upload_request cfg rt now req body db) = db
   \<or> snd (post_upload_request cfg rt now req body db) =
        db\<lparr>platformUser := platformUser db @
             [\<lparr>user_id = fresh_id (map user_id (platformUser db)),
               walletAddress = ru_walletAddress dat,
               totalApproved = 0, totalRejected = 0, totalPending = 0,
               isSuspended = False\<rparr>]\<rparr>"
  using assms
  by (auto simp: post_upload_request_def create_user_def Let_def
           split: sum.splits option.splits if_splits prod.splits)

lemma upload_request_preserves:
  assumes "store_ok db" and "counters_consistent db"
  shows "store_ok (snd (post_upload_request cfg rt now req body db))
         \<and> counters_consistent (snd (post_upload_request cfg rt now req body db))"
proof (cases "requestUploadSchema body")
  case (Inl e)
  then have "snd (post_upload_request cfg rt now req body db) = db"
    by (simp add: post_upload_request_def split: sum.splits)
  then show ?thesis using assms by simp
next
  case (Inr dat)
  from upload_request_parsed [OF Inr, of cfg rt now req db] show ?thesis
  proof
    assume "snd (post_upload_request cfg rt now req body db) = db"
    then show ?thesis using assms by simp
  next
    assume db': "snd (post_upload_request cfg rt now req body db) =
          db\<lparr>platformUser := platformUser db @
               [\<lparr>user_id = fresh_id (map user_id (platformUser db)),
                 walletAddress = ru_walletAddress dat,
                 totalApproved = 0, totalRejected = 0, totalPending = 0,
                 isSuspended = False\<rparr>]\<rparr>"
    show ?thesis
      by (rule user_added_preserves [OF assms]) (simp add: db')+
  qed
qed

lemma perform_preserves:
  assumes "store_ok db" and "counters_consistent db"
  shows "store_ok (perform cfg rt now operation db)
         \<and> counters_consistent (perform cfg rt now operation db)"
proof (cases operation)
  case (RequestUpload req body)
  then show ?thesis using upload_request_preserves [OF assms] by simp
next
  case (ConfirmUpload req body)
  then show ?thesis using upload_confirm_preserves [OF assms] by simp
next
  case (ViewDetail sid aid)
  then show ?thesis using view_preserves [OF assms] by simp
next
  case (Approve sid aid mnote tx)
  then show ?thesis using approve_preserves [OF assms] by simp
next
  case (Reject sid aid rsn mnote)
  then show ?thesis using reject_preserves [OF assms] by simp
next
  case (Flag sid aid rsn)
  then show ?thesis using flag_preserves [OF assms] by simp
next
  case (ClaimReward req body)
  then show ?thesis using claim_preserves [OF assms] by simp
next
  case (ConfirmReward req body)
  then show ?thesis using confirm_reward_preserves [OF assms] by simp
qed

lemma run_preserves:
  assumes "store_ok db" and "counters_consistent db"
  shows "store_ok (run cfg rt ops db) \<and> counters_consistent (run cfg rt ops db)"
  using assms
proof (induction ops arbitrary: db)
  case Nil
  then show ?case by simp
next
  case (Cons step ops)
  obtain now operation where step: "step = (now, operation)" by (cases step)
  have "store_ok (perform cfg rt now operation db)
        \<and> counters_consistent (perform cfg rt now operation db)"
    by (rule perform_preserves [OF Cons.prems])
  then show ?case using Cons.IH step by simp
qed

text \<open>
  Claim C3, as the code has it. After every operation, completed or refused, the
  \<open>totalPending\<close> counter of every user equals the number of that user's submissions whose
  status is PENDING, UNDER_REVIEW or FLAGGED: each operation keeps that (given unique
  submission keys and submissions that belong to stored users, which it keeps too), and
  so it holds after every run of operations that starts without submissions and users.
\<close>

theorem totalPending_counts_awaiting_review:
  "(store_ok db \<and> counters_consistent db \<longrightarrow>
      store_ok (perform cfg rt now operation db)
      \<and> counters_consistent (perform cfg rt now operation db))
   \<and> (taskSubmission db0 = [] \<and> platformUser db0 = [] \<longrightarrow>
      (\<forall>u \<in> set (platformUser (run cfg rt ops db0)).
          totalPending u
            = count_submissions awaiting_review (run cfg rt ops db0) (user_id u)))"
proof (intro conjI impI)
  assume "store_ok db \<and> counters_consistent db"
  then show "store_ok (perform cfg rt now operation db)"
    and "counters_consistent (perform cfg rt now operation db)"
    using perform_preserves [of db cfg rt now operation] by simp_all
next
  assume "taskSubmission db0 = [] \<and> platformUser db0 = []"
  then have "store_ok db0" and "counters_consistent db0"
    by (simp_all add: store_ok_def counters_consistent_def)
  then have "counters_consistent (run cfg rt ops db0)"
    using run_preserves [of db0 cfg rt ops] by simp
  then show "\<forall>u \<in> set (platformUser (run cfg rt ops db0)).
               totalPending u
                 = count_submissions awaiting_review (run cfg rt ops db0) (user_id u)"
    by (simp add: counters_consistent_def list_all_iff)
qed

theorem totalPending_counts_awaiting_review_witness:
  "store_ok (example_db PENDING 1) \<and> counters_consistent (example_db PENDING 1)
   \<and> counters_consistent
        (perform example_cfg example_rt 100 (Flag 7 9 (js ''unclear'')) (example_db PENDING 1))
   \<and> taskSubmission example_empty = [] \<and> platformUser example_empty = []
   \<and> counters_consistent (run example_cfg example_rt
         [(100, RequestUpload (example_signed ''{}'') example_upload_request),
          (101, ConfirmUpload (example_signed ''{}'') example_upload_confirm),
          (102, Flag 1 9 (js ''unclear'')),
          (103, Approve 1 9 None None)] example_empty)"
proof -
  have h1: "store_ok (example_db PENDING 1) \<and> counters_consistent (example_db PENDING 1)"
    by code_simp
  have h2: "taskSubmission example_empty = [] \<and> platformUser example_empty = []"
    by (simp add: example_empty_def)
  show ?thesis
    using h1 h2
      totalPending_counts_awaiting_review [where db = "example_db PENDING 1"
        and cfg = example_cfg and rt = example_rt and now = 100
        and operation = "Flag 7 9 (js ''unclear'')" and ?db0.0 = example_empty
        and ops = "[(100, RequestUpload (example_signed ''{}'') example_upload_request),
                 (101, ConfirmUpload (example_signed ''{}'') example_upload_confirm),
                 (102, Flag 1 9 (js ''unclear'')),
                 (103, Approve 1 9 None None)]"]
    unfolding counters_consistent_def list_all_iff by blast
qed

text \<open>
  Claim C3, as stated, fails on flagging. A user with one PENDING submission and
  \<open>totalPending = 1\<close> satisfies the stated equation; after that submission is flagged the
  user has no submission in PENDING or UNDER_REVIEW, and \<open>totalPending\<close> is still 1.
\<close>

theorem flag_keeps_totalPending:
  "counters_as_specified (example_db PENDING 1)
   \<and> fst (flagSubmission 100 7 9 (js ''unclear'') (example_db PENDING 1)) = Inr ()
   \<and> map totalPending (platformUser (snd (flagSubmission 100 7 9 (js ''unclear'')
        (example_db PENDING 1)))) = [1]
   \<and> count_submissions pending_or_under_review
        (snd (flagSubmission 100 7 9 (js ''unclear'') (example_db PENDING 1))) 1 = 0
   \<and> \<not> counters_as_specified (snd (flagSubmission 100 7 9 (js ''unclear'') (example_db PENDING 1)))"
  by code_simp

text \<open>
  Claim C2 on the code. The upload request route refuses a second submission while one
  is PENDING, but it stores nothing; the confirm route, which stores the submission, makes
  no such check. With one PENDING submission of the user for the task in the database, a
  signed confirmation is answered with a new submission, and the database then holds two
  PENDING submissions of that user for that task.
\<close>

theorem upload_confirm_stores_second_pending:
  "findFirst_pending (example_db PENDING 1) 1 (js ''daily-check-in'')
     = Some (example_submission PENDING)
   \<and> fst (post_upload_request example_cfg example_rt 100 (example_signed ''{}'')
            example_upload_request (example_db PENDING 1))
       = Inl (conflict ''You already have a pending submission for this task'')
   \<and> fst (post_upload_confirm example_cfg example_rt 100 (example_signed ''{}'')
            example_upload_confirm (example_db PENDING 1))
       = Inr \<lparr>cu_submissionId = 8, cu_status = PENDING, cu_submittedAt = 100\<rparr>
   \<and> map (\<lambda>s. (sub_id s, userId s, taskId s, status s))
        (taskSubmission (snd (post_upload_confirm example_cfg example_rt 100
           (example_signed ''{}'') example_upload_confirm (example_db PENDING 1))))
       = [(7, 1, js ''daily-check-in'', PENDING), (8, 1, js ''daily-check-in'', PENDING)]"
  by code_simp

section \<open>Webhook delivery\<close>

lemma find_event_id: "findUnique_event db i = Some e \<Longrightarrow> event_id e = i"
  by (auto simp: findUnique_event_def find_Some_iff)

lemma findUnique_write_event:
  assumes "\<And>r. event_id (f r) = event_id r"
  shows "findUnique_event (write_event i f db) i = map_option f (findUnique_event db i)"
  using find_map_update [of event_id f i "webhookEvent db"] assms
  by (simp add: findUnique_event_def write_event_def)

lemma webhook_request_same:
  assumes "payload e' = payload e" and "targetUrl e' = targetUrl e"
      and "eventType e' = eventType e" and "event_id e' = event_id e"
  shows "webhook_request cfg rt e' = webhook_request cfg rt e"
  using assms by (simp add: webhook_request_def)

lemma deliverWebhook_failure:
  assumes "findUnique_event db eid = Some e"
      and "wh_status e \<noteq> WH_DELIVERED"
      and "\<not> delivered_ok (fetch (webhook_request cfg rt e))"
  shows "\<exists>message.
           deliverWebhook cfg rt fetch now eid db =
             \<lparr>dl_db = write_event eid
                        (\<lambda>r. r\<lparr>wh_status := (if attempts e \<ge> MAX_RETRIES - 1
                                               then WH_FAILED else WH_RETRYING),
                               attempts := attempts r + 1,
                               lastAttemptAt := Some now,
                               lastError := Some message\<rparr>) db,
              dl_requests = [webhook_request cfg rt e],
              dl_timer = (if attempts e < MAX_RETRIES - 1
                          then Some (retry_delay (attempts e), eid) else None)\<rparr>"
proof -
  have key: "event_id e = eid"
    by (rule find_event_id [OF assms(1)])
  show ?thesis
  proof (cases "fetch (webhook_request cfg rt e)")
    case (HttpResponse st body)
    then have "\<not> response_ok st"
      using assms(3) by (simp add: delivered_ok_def)
    then show ?thesis
      using assms(1,2) HttpResponse
      by (intro exI [of _ "''HTTP '' @ decimal st @ '': '' @ body"])
         (simp add: deliverWebhook_def delivery_failed_def Let_def key)
  next
    case (FetchError message)
    then show ?thesis
      using assms(1,2)
      by (intro exI [of _ message])
         (simp add: deliverWebhook_def delivery_failed_def Let_def key)
  qed
qed

lemma deliverWebhook_failure_event:
  assumes "findUnique_event db eid = Some e"
      and "wh_status e \<noteq> WH_DELIVERED"
      and "\<not> delivered_ok (fetch (webhook_request cfg rt e))"
  shows "\<exists>e'. findUnique_event (dl_db (deliverWebhook cfg rt fetch now eid db)) eid = Some e'
            \<and> wh_status e' = (if attempts e \<ge> 2 then WH_FAILED else WH_RETRYING)
            \<and> attempts e' = attempts e + 1
            \<and> lastAttemptAt e' = Some now
            \<and> webhook_request cfg rt e' = webhook_request cfg rt e
            \<and> dl_requests (deliverWebhook cfg rt fetch now eid db) = [webhook_request cfg rt e]
            \<and> dl_timer (deliverWebhook cfg rt fetch now eid db)
                = (if attempts e < 2 then Some (retry_delay (attempts e), eid) else None)"
proof -
  from deliverWebhook_failure [of db eid e fetch cfg rt now] assms obtain message where
    d: "deliverWebhook cfg rt fetch now eid db =
             \<lparr>dl_db = write_event eid
                        (\<lambda>r. r\<lparr>wh_status := (if attempts e \<ge> MAX_RETRIES - 1
                                               then WH_FAILED else WH_RETRYING),
                               attempts := attempts r + 1,
                               lastAttemptAt := Some now,
                               lastError := Some message\<rparr>) db,
              dl_requests = [webhook_request cfg rt e],
              dl_timer = (if attempts e < MAX_RETRIES - 1
                          then Some (retry_delay (attempts e), eid) else None)\<rparr>"
    by blast
  show ?thesis
    using assms(1)
    by (simp add: d findUnique_write_event MAX_RETRIES_def webhook_request_def)
qed

lemma write_event_rows:
  assumes "row \<in> set (webhookEvent (write_event i f db))" and "event_id row = i"
      and "\<And>r. event_id (f r) = event_id r"
  shows "\<exists>r. row = f r"
  using assms by (auto simp: write_event_def split: if_splits)

lemma delivery_failed_parts:
  "dl_requests (delivery_failed now event request message db) = [request]"
  "dl_timer (delivery_failed now event request message db) = Some t \<Longrightarrow> snd t = event_id event"
  by (auto simp: delivery_failed_def split: if_splits)

lemma deliverWebhook_cases:
  "deliverWebhook cfg rt fetch now i db = \<lparr>dl_db = db, dl_requests = [], dl_timer = None\<rparr>
   \<or> (\<exists>event db'. findUnique_event db i = Some event
         \<and> deliverWebhook cfg rt fetch now i db =
             \<lparr>dl_db = db', dl_requests = [webhook_request cfg rt event], dl_timer = None\<rparr>)
   \<or> (\<exists>event message. findUnique_event db i = Some event
         \<and> deliverWebhook cfg rt fetch now i db =
             delivery_failed now event (webhook_request cfg rt event) message db)"
proof (cases "findUnique_event db i")
  case None
  then show ?thesis by (simp add: deliverWebhook_def)
next
  case (Some event)
  show ?thesis
  proof (cases "wh_status event = WH_DELIVERED")
    case True
    then show ?thesis using Some by (simp add: deliverWebhook_def)
  next
    case False
    show ?thesis
    proof (cases "fetch (webhook_request cfg rt event)")
      case (HttpResponse st body)
      show ?thesis
      proof (cases "response_ok st")
        case True
        then show ?thesis
          using Some False HttpResponse by (simp add: deliverWebhook_def Let_def)
      next
        case False
        then have "deliverWebhook cfg rt fetch now i db =
                     delivery_failed now event (webhook_request cfg rt event)
                       (''HTTP '' @ decimal st @ '': '' @ body) db"
          using Some \<open>wh_status event \<noteq> WH_DELIVERED\<close> HttpResponse
          by (simp add: deliverWebhook_def Let_def)
        then show ?thesis using Some by blast
      qed
    next
      case (FetchError message)
      then have "deliverWebhook cfg rt fetch now i db =
                   delivery_failed now event (webhook_request cfg rt event) message db"
        using Some False by (simp add: deliverWebhook_def Let_def)
      then show ?thesis using Some by blast
    qed
  qed
qed

lemma rq_id_webhook_request: "rq_id (webhook_request cfg rt event) = event_id event"
  by (simp add: webhook_request_def Let_def)

lemma deliverWebhook_requests:
  assumes "r \<in> set (dl_requests (deliverWebhook cfg rt fetch now i db))"
  shows "rq_id r = i"
  using deliverWebhook_cases [of cfg rt fetch now i db]
proof (elim disjE exE conjE)
  assume "deliverWebhook cfg rt fetch now i db = \<lparr>dl_db = db, dl_requests = [], dl_timer = None\<rparr>"
  then show ?thesis using assms by simp
next
  fix event db'
  assume "findUnique_event db i = Some event"
    and "deliverWebhook cfg rt fetch now i db =
             \<lparr>dl_db = db', dl_requests = [webhook_request cfg rt event], dl_timer = None\<rparr>"
  then show ?thesis
    using assms find_event_id [of db i event] by (simp add: rq_id_webhook_request)
next
  fix event message
  assume "findUnique_event db i = Some event"
    and "deliverWebhook cfg rt fetch now i db =
             delivery_failed now event (webhook_request cfg rt event) message db"
  then show ?thesis
    using assms find_event_id [of db i event]
    by (simp add: rq_id_webhook_request delivery_failed_parts(1))
qed

lemma deliverWebhook_timer:
  assumes "dl_timer (deliverWebhook cfg rt fetch now i db) = Some t"
  shows "snd t = i"
  using deliverWebhook_cases [of cfg rt fetch now i db]
proof (elim disjE exE conjE)
  assume "deliverWebhook cfg rt fetch now i db = \<lparr>dl_db = db, dl_requests = [], dl_timer = None\<rparr>"
  then show ?thesis using assms by simp
next
  fix event db'
  assume "deliverWebhook cfg rt fetch now i db =
             \<lparr>dl_db = db', dl_requests = [webhook_request cfg rt event], dl_timer = None\<rparr>"
  then show ?thesis using assms by simp
next
  fix event message
  assume found: "findUnique_event db i = Some event"
    and "deliverWebhook cfg rt fetch now i db =
             delivery_failed now event (webhook_request cfg rt event) message db"
  then have "dl_timer (delivery_failed now event (webhook_request cfg rt event) message db)
               = Some t"
    using assms by simp
  then have "snd t = event_id event"
    by (rule delivery_failed_parts(2))
  then show ?thesis
    using find_event_id [OF found] by simp
qed

lemma deliver_each_requests:
  "r \<in> set (fst (snd (deliver_each cfg rt fetch now ids db))) \<Longrightarrow> rq_id r \<in> set ids"
proof (induction ids arbitrary: db)
  case Nil
  then show ?case by simp
next
  case (Cons i ids)
  obtain db' requests timers where
    rest: "deliver_each cfg rt fetch now ids (dl_db (deliverWebhook cfg rt fetch now i db))
             = (db', requests, timers)"
    by (cases "deliver_each cfg rt fetch now ids (dl_db (deliverWebhook cfg rt fetch now i db))")
  have "r \<in> set (dl_requests (deliverWebhook cfg rt fetch now i db)) \<or> r \<in> set requests"
    using Cons.prems by (simp add: Let_def rest)
  then show ?case
  proof
    assume "r \<in> set (dl_requests (deliverWebhook cfg rt fetch now i db))"
    then show ?thesis using deliverWebhook_requests by fastforce
  next
    assume "r \<in> set requests"
    then have "rq_id r \<in> set ids"
      using Cons.IH [of "dl_db (deliverWebhook cfg rt fetch now i db)"] by (simp add: rest)
    then show ?thesis by simp
  qed
qed

lemma deliver_each_timers:
  "t \<in> set (snd (snd (deliver_each cfg rt fetch now ids db))) \<Longrightarrow> snd t \<in> set ids"
proof (induction ids arbitrary: db)
  case Nil
  then show ?case by simp
next
  case (Cons i ids)
  obtain db' requests timers where
    rest: "deliver_each cfg rt fetch now ids (dl_db (deliverWebhook cfg rt fetch now i db))
             = (db', requests, timers)"
    by (cases "deliver_each cfg rt fetch now ids (dl_db (deliverWebhook cfg rt fetch now i db))")
  have "dl_timer (deliverWebhook cfg rt fetch now i db) = Some t \<or> t \<in> set timers"
    using Cons.prems by (auto simp: Let_def rest split: option.splits)
  then show ?case
  proof
    assume "dl_timer (deliverWebhook cfg rt fetch now i db) = Some t"
    then show ?thesis using deliverWebhook_timer by fastforce
  next
    assume "t \<in> set timers"
    then have "snd t \<in> set ids"
      using Cons.IH [of "dl_db (deliverWebhook cfg rt fetch now i db)"] by (simp add: rest)
    then show ?thesis by simp
  qed
qed

lemma find_append_absent: "find P xs = None \<Longrightarrow> find P (xs @ ys) = find P ys"
  by (induction xs) (auto split: if_splits)

lemma emitWebhook_stores_pending:
  assumes "emitWebhook cfg rt now ty dat db = ((eid, started), db')"
  shows "\<exists>e. findUnique_event db' eid = Some e \<and> webhookEvent db' = webhookEvent db @ [e]
            \<and> wh_status e = WH_PENDING \<and> attempts e = 0 \<and> eventType e = ty
            \<and> started = (if truthy (userAppWebhookUrl cfg) then Some eid else None)"
proof -
  have "fresh_id (map event_id (webhookEvent db)) \<notin> set (map event_id (webhookEvent db))"
    by (rule fresh_id_notin)
  then have "\<forall>x \<in> set (webhookEvent db).
               event_id x \<noteq> fresh_id (map event_id (webhookEvent db))"
    by (metis image_eqI set_map)
  then have "find (\<lambda>e. event_id e = fresh_id (map event_id (webhookEvent db))) (webhookEvent db)
               = None"
    by (simp add: find_None_iff)
  then show ?thesis
    using assms
    by (auto simp: emitWebhook_def Let_def findUnique_event_def find_append_absent)
qed

lemma deliverWebhook_failed_rows:
  assumes "findUnique_event db eid = Some e"
      and "wh_status e \<noteq> WH_DELIVERED"
      and "\<not> delivered_ok (fetch (webhook_request cfg rt e))"
      and "2 \<le> attempts e"
      and "row \<in> set (webhookEvent (dl_db (deliverWebhook cfg rt fetch now eid db)))"
      and "event_id row = eid"
  shows "wh_status row = WH_FAILED"
proof -
  from deliverWebhook_failure [of db eid e fetch cfg rt now] assms(1,2,3) obtain message where
    d: "deliverWebhook cfg rt fetch now eid db =
             \<lparr>dl_db = write_event eid
                        (\<lambda>r. r\<lparr>wh_status := (if attempts e \<ge> MAX_RETRIES - 1
                                               then WH_FAILED else WH_RETRYING),
                               attempts := attempts r + 1,
                               lastAttemptAt := Some now,
                               lastError := Some message\<rparr>) db,
              dl_requests = [webhook_request cfg rt e],
              dl_timer = (if attempts e < MAX_RETRIES - 1
                          then Some (retry_delay (attempts e), eid) else None)\<rparr>"
    by blast
  from write_event_rows [of row eid _ db] assms(5,6)
  obtain r where "row = r\<lparr>wh_status := (if attempts e \<ge> MAX_RETRIES - 1
                                               then WH_FAILED else WH_RETRYING),
                               attempts := attempts r + 1,
                               lastAttemptAt := Some now,
                               lastError := Some message\<rparr>"
    unfolding d by fastforce
  then show ?thesis
    using assms(4) by (simp add: MAX_RETRIES_def)
qed

lemma failedEvents_skip:
  assumes "\<And>row. row \<in> set (webhookEvent db) \<Longrightarrow> event_id row = eid
                  \<Longrightarrow> wh_status row = WH_FAILED"
  shows "eid \<notin> set (map event_id (failedEvents db))"
proof
  assume "eid \<in> set (map event_id (failedEvents db))"
  then obtain row where "row \<in> set (failedEvents db)" and "event_id row = eid"
    by auto
  then have "row \<in> set (webhookEvent db)" and "wh_status row = WH_RETRYING"
    by (auto simp: failedEvents_def dest: in_set_takeD)
  then show False
    using assms [of row] \<open>event_id row = eid\<close> by simp
qed

lemma retry_delay_values: "retry_delay 0 = 1000" "retry_delay (Suc 0) = 5000"
  by (simp_all add: retry_delay_def RETRY_DELAYS_def)

text \<open>
  Along the chain of timers alone, an event that is PENDING with no attempts and whose
  delivery fails three times in a row (a response outside 2xx or a transport error) goes
  to RETRYING with one attempt and a retry in 1 s, to RETRYING with two attempts and a
  retry in 5 s, and to FAILED with three attempts and no retry scheduled; each attempt
  posts the same request. A sweep that runs afterwards does not select the event, posts
  nothing for it and schedules nothing for it. An event that is DELIVERED is left alone
  by \<open>deliverWebhook\<close>: no request, no change, no timer.
\<close>

lemma three_failures_along_the_timers:
  assumes "findUnique_event db eid = Some e"
      and "wh_status e = WH_PENDING" and "attempts e = 0"
      and "\<not> delivered_ok (fetch1 (webhook_request cfg rt e))"
      and "\<not> delivered_ok (fetch2 (webhook_request cfg rt e))"
      and "\<not> delivered_ok (fetch3 (webhook_request cfg rt e))"
      and "d1 = deliverWebhook cfg rt fetch1 t1 eid db"
      and "d2 = deliverWebhook cfg rt fetch2 t2 eid (dl_db d1)"
      and "d3 = deliverWebhook cfg rt fetch3 t3 eid (dl_db d2)"
      and "sweep = retryFailedWebhooks cfg rt fetch4 t4 (dl_db d3)"
  shows "(\<exists>e1 e2 e3.
            findUnique_event (dl_db d1) eid = Some e1
            \<and> wh_status e1 = WH_RETRYING \<and> attempts e1 = 1
            \<and> dl_requests d1 = [webhook_request cfg rt e] \<and> dl_timer d1 = Some (1000, eid)
            \<and> findUnique_event (dl_db d2) eid = Some e2
            \<and> wh_status e2 = WH_RETRYING \<and> attempts e2 = 2
            \<and> dl_requests d2 = [webhook_request cfg rt e] \<and> dl_timer d2 = Some (5000, eid)
            \<and> findUnique_event (dl_db d3) eid = Some e3
            \<and> wh_status e3 = WH_FAILED \<and> attempts e3 = 3
            \<and> dl_requests d3 = [webhook_request cfg rt e] \<and> dl_timer d3 = None)
         \<and> eid \<notin> set (map event_id (failedEvents (dl_db d3)))
         \<and> (\<forall>r \<in> set (fst (snd (snd sweep))). rq_id r \<noteq> eid)
         \<and> (\<forall>t \<in> set (snd (snd (snd sweep))). snd t \<noteq> eid)
         \<and> (\<forall>db' e' fetch t. findUnique_event db' eid = Some e' \<and> wh_status e' = WH_DELIVERED
               \<longrightarrow> deliverWebhook cfg rt fetch t eid db'
                     = \<lparr>dl_db = db', dl_requests = [], dl_timer = None\<rparr>)"
proof -
  have nd0: "wh_status e \<noteq> WH_DELIVERED" using assms(2) by simp
  from deliverWebhook_failure_event [of db eid e fetch1 cfg rt t1, OF assms(1) nd0 assms(4)]
  obtain e1 where
    e1: "findUnique_event (dl_db d1) eid = Some e1" "wh_status e1 = WH_RETRYING"
        "attempts e1 = 1" "webhook_request cfg rt e1 = webhook_request cfg rt e"
    and r1: "dl_requests d1 = [webhook_request cfg rt e]" "dl_timer d1 = Some (1000, eid)"
    unfolding assms(7) using assms(3) by (auto simp: retry_delay_values)
  have nd1: "wh_status e1 \<noteq> WH_DELIVERED" using e1(2) by simp
  have f2: "\<not> delivered_ok (fetch2 (webhook_request cfg rt e1))"
    using assms(5) e1(4) by simp
  from deliverWebhook_failure_event [of "dl_db d1" eid e1 fetch2 cfg rt t2, OF e1(1) nd1 f2]
  obtain e2 where
    e2: "findUnique_event (dl_db d2) eid = Some e2" "wh_status e2 = WH_RETRYING"
        "attempts e2 = 2" "webhook_request cfg rt e2 = webhook_request cfg rt e"
    and r2: "dl_requests d2 = [webhook_request cfg rt e]" "dl_timer d2 = Some (5000, eid)"
    unfolding assms(8) using e1(3,4) by (auto simp: retry_delay_values)
  have nd2: "wh_status e2 \<noteq> WH_DELIVERED" using e2(2) by simp
  have f3: "\<not> delivered_ok (fetch3 (webhook_request cfg rt e2))"
    using assms(6) e2(4) by simp
  from deliverWebhook_failure_event [of "dl_db d2" eid e2 fetch3 cfg rt t3, OF e2(1) nd2 f3]
  obtain e3 where
    e3: "findUnique_event (dl_db d3) eid = Some e3" "wh_status e3 = WH_FAILED"
        "attempts e3 = 3"
    and r3: "dl_requests d3 = [webhook_request cfg rt e]" "dl_timer d3 = None"
    unfolding assms(9) using e2(3,4) by auto
  have rows: "wh_status row = WH_FAILED"
    if "row \<in> set (webhookEvent (dl_db d3))" and "event_id row = eid" for row
    using deliverWebhook_failed_rows [of "dl_db d2" eid e2 fetch3 cfg rt row t3,
            OF e2(1) nd2 f3 _ _ that(2)] that(1) e2(3)
    unfolding assms(9) by simp
  have skipped: "eid \<notin> set (map event_id (failedEvents (dl_db d3)))"
    by (rule failedEvents_skip) (rule rows)
  have requests: "\<forall>r \<in> set (fst (snd (snd sweep))). rq_id r \<noteq> eid"
    using skipped deliver_each_requests unfolding assms(10) retryFailedWebhooks_def
    by fastforce
  have timers: "\<forall>t \<in> set (snd (snd (snd sweep))). snd t \<noteq> eid"
    using skipped deliver_each_timers unfolding assms(10) retryFailedWebhooks_def
    by fastforce
  have delivered: "\<forall>db' e' fetch t.
      findUnique_event db' eid = Some e' \<and> wh_status e' = WH_DELIVERED
        \<longrightarrow> deliverWebhook cfg rt fetch t eid db'
              = \<lparr>dl_db = db', dl_requests = [], dl_timer = None\<rparr>"
    by (simp add: deliverWebhook_def)
  show ?thesis
    using e1 r1 e2 r2 e3 r3 skipped requests timers delivered by blast
qed

lemma deliverWebhook_single_failure:
  assumes "webhookEvent db = [e]" and "event_id e = eid"
      and "wh_status e \<noteq> WH_DELIVERED"
      and "\<not> delivered_ok (fetch (webhook_request cfg rt e))"
  shows "\<exists>e'. webhookEvent (dl_db (deliverWebhook cfg rt fetch now eid db)) = [e']
            \<and> event_id e' = eid
            \<and> wh_status e' = (if 2 \<le> attempts e then WH_FAILED else WH_RETRYING)
            \<and> attempts e' = attempts e + 1
            \<and> webhook_request cfg rt e' = webhook_request cfg rt e
            \<and> dl_requests (deliverWebhook cfg rt fetch now eid db) = [webhook_request cfg rt e]
            \<and> dl_timer (deliverWebhook cfg rt fetch now eid db)
                = (if attempts e < 2 then Some (retry_delay (attempts e), eid) else None)"
proof -
  have found: "findUnique_event db eid = Some e"
    using assms(1,2) by (simp add: findUnique_event_def)
  from deliverWebhook_failure [of db eid e fetch cfg rt now, OF found assms(3,4)]
  obtain message where
    d: "deliverWebhook cfg rt fetch now eid db =
             \<lparr>dl_db = write_event eid
                        (\<lambda>r. r\<lparr>wh_status := (if attempts e \<ge> MAX_RETRIES - 1
                                               then WH_FAILED else WH_RETRYING),
                               attempts := attempts r + 1,
                               lastAttemptAt := Some now,
                               lastError := Some message\<rparr>) db,
              dl_requests = [webhook_request cfg rt e],
              dl_timer = (if attempts e < MAX_RETRIES - 1
                          then Some (retry_delay (attempts e), eid) else None)\<rparr>"
    by blast
  show ?thesis
    using assms(1,2)
    by (simp add: d write_event_def MAX_RETRIES_def webhook_request_def)
qed

text \<open>
  Claim C4 on the code. \<open>deliverWebhook\<close> returns early only for an event that is missing
  or DELIVERED, and it sets a timer after every failure below the maximum, whoever called
  it. With an endpoint that is down: the delivery that \<open>emitWebhook\<close> starts fails and sets
  a timer of 1 s; \<open>retryFailedWebhooks\<close> selects the event (RETRYING, one attempt), its
  delivery fails and sets a timer of 5 s; the first timer starts the third delivery, which
  fails and leaves the event FAILED with three attempts and no new timer; the second timer
  then starts a fourth delivery of the FAILED event, which posts the request again and
  leaves the event with four attempts.
\<close>

theorem failed_event_is_delivered_a_fourth_time:
  "fst (emitWebhook example_cfg example_rt 10 submission_approved example_data example_empty)
     = (1, Some 1)
   \<and> event_states example_outbox = [(1, WH_PENDING, 0)]
   \<and> length (dl_requests example_first) = 1
   \<and> dl_timer example_first = Some (1000, 1)
   \<and> event_states (dl_db example_first) = [(1, WH_RETRYING, 1)]
   \<and> fst example_sweep = 1
   \<and> length (fst (snd (snd example_sweep))) = 1
   \<and> snd (snd (snd example_sweep)) = [(5000, 1)]
   \<and> event_states (fst (snd example_sweep)) = [(1, WH_RETRYING, 2)]
   \<and> length (dl_requests example_third) = 1
   \<and> dl_timer example_third = None
   \<and> event_states (dl_db example_third) = [(1, WH_FAILED, 3)]
   \<and> dl_requests example_fourth = [webhook_request example_cfg example_rt example_event]
   \<and> dl_timer example_fourth = None
   \<and> event_states (dl_db example_fourth) = [(1, WH_FAILED, 4)]"
proof -
  have emitted: "emitWebhook example_cfg example_rt 10 submission_approved example_data
                   example_empty
                 = ((1, Some 1), example_empty\<lparr>webhookEvent := [example_event]\<rparr>)"
    by (simp add: emitWebhook_def example_cfg_def example_rt_def example_empty_def
          example_event_def fresh_id_def truthy_def Let_def)
  then have rows0: "webhookEvent example_outbox = [example_event]"
    by (simp add: example_outbox_def)
  have e0: "event_id example_event = 1" "wh_status example_event = WH_PENDING"
       "attempts example_event = 0"
    by (simp_all add: example_event_def)
  have down: "\<not> delivered_ok (example_down r)" for r
    by (simp add: example_down_def delivered_ok_def response_ok_def)
  note step = deliverWebhook_single_failure
    [where cfg = example_cfg and rt = example_rt and fetch = example_down and eid = 1]
  from step [where now = 10, OF rows0 e0(1) _ down]
  obtain e1 where
    e1: "webhookEvent (dl_db example_first) = [e1]" "event_id e1 = 1"
        "wh_status e1 = WH_RETRYING" "attempts e1 = 1"
        "webhook_request example_cfg example_rt e1
           = webhook_request example_cfg example_rt example_event"
    and r1: "dl_requests example_first = [webhook_request example_cfg example_rt example_event]"
        "dl_timer example_first = Some (1000, 1)"
    unfolding example_first_def using e0 by (auto simp: retry_delay_values)
  have selected: "failedEvents (dl_db example_first) = [e1]"
    using e1 by (simp add: failedEvents_def MAX_RETRIES_def)
  from step [where now = 500, OF e1(1,2) _ down]
  obtain e2 where
    e2: "webhookEvent (dl_db (deliverWebhook example_cfg example_rt example_down 500 1
           (dl_db example_first))) = [e2]" "event_id e2 = 1"
        "wh_status e2 = WH_RETRYING" "attempts e2 = 2"
        "webhook_request example_cfg example_rt e2
           = webhook_request example_cfg example_rt example_event"
    and r2: "dl_requests (deliverWebhook example_cfg example_rt example_down 500 1
               (dl_db example_first))
             = [webhook_request example_cfg example_rt example_event]"
        "dl_timer (deliverWebhook example_cfg example_rt example_down 500 1
               (dl_db example_first)) = Some (5000, 1)"
    using e1 by (auto simp: retry_delay_values)
  have sweep: "example_sweep =
      (1, dl_db (deliverWebhook example_cfg example_rt example_down 500 1 (dl_db example_first)),
       [webhook_request example_cfg example_rt example_event], [(5000, 1)])"
    using selected e1(2) r2 by (simp add: example_sweep_def retryFailedWebhooks_def Let_def)
  have rows2: "webhookEvent (fst (snd example_sweep)) = [e2]"
    using e2(1) by (simp add: sweep)
  from step [where now = 1010, OF rows2 e2(2) _ down]
  obtain e3 where
    e3: "webhookEvent (dl_db example_third) = [e3]" "event_id e3 = 1"
        "wh_status e3 = WH_FAILED" "attempts e3 = 3"
        "webhook_request example_cfg example_rt e3
           = webhook_request example_cfg example_rt example_event"
    and r3: "dl_requests example_third = [webhook_request example_cfg example_rt example_event]"
        "dl_timer example_third = None"
    unfolding example_third_def using e2 by auto
  from step [where now = 5500, OF e3(1,2) _ down]
  obtain e4 where
    e4: "webhookEvent (dl_db example_fourth) = [e4]" "event_id e4 = 1"
        "wh_status e4 = WH_FAILED" "attempts e4 = 4"
    and r4: "dl_requests example_fourth = [webhook_request example_cfg example_rt example_event]"
        "dl_timer example_fourth = None"
    unfolding example_fourth_def using e3 by auto
  show ?thesis
    using emitted rows0 e0 e1 r1 e2 r2 e3 r3 e4 r4
    by (simp add: event_states_def sweep)
qed

end
